theory Spec2Isabelle
  imports Complex_Main
begin

section \<open>JavaScript values\<close>

text \<open>
  The validators of \<^verbatim>\<open>src/protocol/ALNSpec.js\<close> and the kernel of
  \<^verbatim>\<open>src/core/ALNKernel.js\<close> inspect arbitrary values with \<^verbatim>\<open>typeof\<close>,
  \<^verbatim>\<open>Array.isArray\<close>, \<^verbatim>\<open>Number.isFinite\<close>, \<^verbatim>\<open>in\<close>,
  \<^verbatim>\<open>Object.keys\<close> and \<^verbatim>\<open>String\<close>. The values are modelled in two layers.

  \<^item> \<open>jsdata\<close>: the data a caller passes in: \<^verbatim>\<open>undefined\<close>, \<^verbatim>\<open>null\<close>, booleans,
    numbers, strings, arrays and plain objects (prototype \<^verbatim>\<open>Object.prototype\<close>) whose own
    properties are enumerable data properties with string keys. An object is the list of
    its own properties in the order \<^verbatim>\<open>Object.keys\<close> enumerates them; the first entry of
    a key is the one that counts.
  \<^item> \<open>jsval\<close>: what a property read on such data can yield: the data itself, or a value
    inherited from \<^verbatim>\<open>Object.prototype\<close> (one of its built-in functions, or, under the
    name \<^verbatim>\<open>__proto__\<close>, \<^verbatim>\<open>Object.prototype\<close> itself).

  A number is a finite real, \<^verbatim>\<open>NaN\<close>, \<^verbatim>\<open>Infinity\<close> or \<^verbatim>\<open>-Infinity\<close>; the
  rounding of doubles plays no part in the code. Strings are lists of characters, the code
  units below 256; the case mapping below is that of ASCII.
\<close>

datatype jsnum = Fin real | NaN | PosInf | NegInf

datatype jsdata =
    JUndefined
  | JNull
  | JBool bool
  | JNum jsnum
  | JStr string
  | JArr "jsdata list"
  | JObj "(string \<times> jsdata) list"

datatype jsval =
    Data jsdata
  | BuiltinFunction string
  | ObjectPrototype

text \<open>
  What the host leaves open: the digits \<^verbatim>\<open>Number.prototype.toString\<close> prints for a
  finite number, the source text \<^verbatim>\<open>Function.prototype.toString\<close> prints for the built-in
  function stored under a name of \<^verbatim>\<open>Object.prototype\<close>, \<^verbatim>\<open>JSON.stringify\<close>, and the
  SHA-256 digest in hexadecimal of Node's \<^verbatim>\<open>crypto\<close> module. They are parameters of the
  model.
\<close>

record host =
  numberToString :: "real \<Rightarrow> string"
  functionToString :: "string \<Rightarrow> string"
  jsonStringify :: "jsdata \<Rightarrow> string"
  sha256hex :: "string \<Rightarrow> string"

text \<open>
  Exceptions: the \<^verbatim>\<open>TypeError\<close> the language raises by itself, and the
  \<^verbatim>\<open>new Error(message)\<close> the code throws.
\<close>

datatype exn = TypeError | Error string

subsection \<open>Operators\<close>

fun typeof :: "jsval \<Rightarrow> string" where
  "typeof (Data JUndefined) = ''undefined''"
| "typeof (Data JNull) = ''object''"
| "typeof (Data (JBool b)) = ''boolean''"
| "typeof (Data (JNum n)) = ''number''"
| "typeof (Data (JStr s)) = ''string''"
| "typeof (Data (JArr xs)) = ''object''"
| "typeof (Data (JObj kvs)) = ''object''"
| "typeof (BuiltinFunction n) = ''function''"
| "typeof ObjectPrototype = ''object''"

fun isArray :: "jsval \<Rightarrow> bool" where
  "isArray (Data (JArr xs)) = True"
| "isArray v = False"

text \<open>\<^verbatim>\<open>Number.isFinite(v)\<close>: a number that is neither \<^verbatim>\<open>NaN\<close> nor infinite.\<close>

fun isFiniteNumber :: "jsval \<Rightarrow> bool" where
  "isFiniteNumber (Data (JNum (Fin x))) = True"
| "isFiniteNumber v = False"

text \<open>Truthiness, as \<^verbatim>\<open>Boolean(v)\<close>, \<^verbatim>\<open>!v\<close>, \<^verbatim>\<open>a || b\<close> and \<^verbatim>\<open>c ? a : b\<close> see it.\<close>

fun truthy :: "jsdata \<Rightarrow> bool" where
  "truthy JUndefined = False"
| "truthy JNull = False"
| "truthy (JBool b) = b"
| "truthy (JNum (Fin x)) = (x \<noteq> 0)"
| "truthy (JNum NaN) = False"
| "truthy (JNum PosInf) = True"
| "truthy (JNum NegInf) = True"
| "truthy (JStr s) = (s \<noteq> [])"
| "truthy (JArr xs) = True"
| "truthy (JObj kvs) = True"

text \<open>The names every plain object inherits from \<^verbatim>\<open>Object.prototype\<close>.\<close>

definition objectPrototypeKeys :: "string list" where
  "objectPrototypeKeys =
     [''constructor'', ''__defineGetter__'', ''__defineSetter__'', ''hasOwnProperty'',
      ''__lookupGetter__'', ''__lookupSetter__'', ''isPrototypeOf'',
      ''propertyIsEnumerable'', ''toString'', ''valueOf'', ''__proto__'',
      ''toLocaleString'']"

text \<open>\<^verbatim>\<open>Object.keys(o)\<close> of a plain object.\<close>

definition ownKeys :: "(string \<times> jsdata) list \<Rightarrow> string list" where
  "ownKeys kvs = map fst kvs"

text \<open>\<^verbatim>\<open>k in o\<close> for a plain object: an own property, or one of \<^verbatim>\<open>Object.prototype\<close>.\<close>

definition hasProperty :: "(string \<times> jsdata) list \<Rightarrow> string \<Rightarrow> bool" where
  "hasProperty kvs k = (k \<in> set (ownKeys kvs) \<or> k \<in> set objectPrototypeKeys)"

text \<open>\<^verbatim>\<open>o[k]\<close> for a plain object: the own property wins, then the prototype.\<close>

definition getProperty :: "(string \<times> jsdata) list \<Rightarrow> string \<Rightarrow> jsval" where
  "getProperty kvs k =
     (case map_of kvs k of
        Some v \<Rightarrow> Data v
      | None \<Rightarrow>
          if k = ''__proto__'' then ObjectPrototype
          else if k \<in> set objectPrototypeKeys then BuiltinFunction k
          else Data JUndefined)"

text \<open>
  \<^verbatim>\<open>m.k\<close> for a name \<open>k\<close> that \<^verbatim>\<open>Object.prototype\<close> does not define, on any data
  that is neither \<^verbatim>\<open>null\<close> nor \<^verbatim>\<open>undefined\<close>: the own property of an object,
  \<^verbatim>\<open>undefined\<close> otherwise.
\<close>

fun field :: "jsdata \<Rightarrow> string \<Rightarrow> jsdata" where
  "field (JObj kvs) k = (case map_of kvs k of Some v \<Rightarrow> v | None \<Rightarrow> JUndefined)"
| "field v k = JUndefined"

text \<open>\<^verbatim>\<open>xs.join(sep)\<close> on strings.\<close>

fun joinWith :: "string \<Rightarrow> string list \<Rightarrow> string" where
  "joinWith sep [] = []"
| "joinWith sep [x] = x"
| "joinWith sep (x # y # ys) = x @ sep @ joinWith sep (y # ys)"

text \<open>
  \<^verbatim>\<open>String(v)\<close>. A primitive has its fixed text. An array is joined with commas, where
  \<^verbatim>\<open>undefined\<close> and \<^verbatim>\<open>null\<close> elements give the empty string. An object is converted
  by \<^verbatim>\<open>OrdinaryToPrimitive\<close>: it reads \<^verbatim>\<open>toString\<close> and then \<^verbatim>\<open>valueOf\<close> and calls
  the first that is callable and returns a primitive. The inherited \<^verbatim>\<open>toString\<close>
  returns \<^verbatim>\<open>[object Object]\<close>. An own data property \<^verbatim>\<open>toString\<close> hides it and is not
  callable; \<^verbatim>\<open>valueOf\<close>, own or inherited, then gives no primitive, and the conversion
  throws a \<^verbatim>\<open>TypeError\<close>.
\<close>

fun toStringData :: "host \<Rightarrow> jsdata \<Rightarrow> exn + string"
  and joinElements :: "host \<Rightarrow> jsdata list \<Rightarrow> exn + string list"
where
  "toStringData h JUndefined = Inr ''undefined''"
| "toStringData h JNull = Inr ''null''"
| "toStringData h (JBool b) = Inr (if b then ''true'' else ''false'')"
| "toStringData h (JNum (Fin x)) = Inr (numberToString h x)"
| "toStringData h (JNum NaN) = Inr ''NaN''"
| "toStringData h (JNum PosInf) = Inr ''Infinity''"
| "toStringData h (JNum NegInf) = Inr ''-Infinity''"
| "toStringData h (JStr s) = Inr s"
| "toStringData h (JArr xs) =
     (case joinElements h xs of Inl e \<Rightarrow> Inl e | Inr ss \<Rightarrow> Inr (joinWith '','' ss))"
| "toStringData h (JObj kvs) =
     (if ''toString'' \<in> set (ownKeys kvs) then Inl TypeError else Inr ''[object Object]'')"
| "joinElements h [] = Inr []"
| "joinElements h (x # xs) =
     (case (if x = JUndefined \<or> x = JNull then Inr [] else toStringData h x) of
        Inl e \<Rightarrow> Inl e
      | Inr s \<Rightarrow> (case joinElements h xs of Inl e \<Rightarrow> Inl e | Inr ss \<Rightarrow> Inr (s # ss)))"

fun toStringJS :: "host \<Rightarrow> jsval \<Rightarrow> exn + string" where
  "toStringJS h (Data d) = toStringData h d"
| "toStringJS h (BuiltinFunction n) = Inr (functionToString h n)"
| "toStringJS h ObjectPrototype = Inr ''[object Object]''"

section \<open>The protocol: primitives, message kinds, intents\<close>

definition ALNPrimitives :: "string list" where
  "ALNPrimitives =
     [''aln::string'', ''aln::number'', ''aln::boolean'', ''aln::object'', ''aln::array'',
      ''aln::virtual_object'', ''aln::intent'', ''aln::plan'', ''aln::signal'']"

definition ALNMessageKinds :: "string list" where
  "ALNMessageKinds =
     [''aln::intent_request'', ''aln::intent_plan'', ''aln::execution_result'',
      ''aln::error'', ''aln::heartbeat'', ''aln::spec_query'', ''aln::spec_response'']"

type_synonym shape = "(string \<times> string) list"

record intent_spec =
  description :: string
  inputShape :: shape
  outputShape :: shape

definition ALNSpec_intents :: "(string \<times> intent_spec) list" where
  "ALNSpec_intents =
     [(''aln::define_virtual_object'',
       \<lparr>description = ''Define or update a virtual-object in the global registry.'',
        inputShape = [(''name'', ''aln::string''), (''description'', ''aln::string''),
                      (''schema'', ''aln::object''), (''tags'', ''aln::array'')],
        outputShape = [(''id'', ''aln::string''), (''name'', ''aln::string'')]\<rparr>),
      (''aln::plan_repository'',
       \<lparr>description = ''Create a repository plan including files, workflows, and policies.'',
        inputShape = [(''description'', ''aln::string''), (''constraints'', ''aln::object'')],
        outputShape = [(''planId'', ''aln::string''), (''files'', ''aln::array''),
                       (''workflows'', ''aln::array'')]\<rparr>),
      (''aln::interop_python'',
       \<lparr>description = ''Request a Python operation compatible with ML systems and notebooks.'',
        inputShape = [(''sessionId'', ''aln::string''), (''code'', ''aln::string''),
                      (''ioContract'', ''aln::object'')],
        outputShape = [(''sessionId'', ''aln::string''), (''stdout'', ''aln::string''),
                       (''stderr'', ''aln::string'')]\<rparr>)]"

section \<open>Shape validator\<close>

fun primitiveLabel :: "string \<Rightarrow> string" where
  "primitiveLabel primitive =
     (if primitive = ''aln::string'' then ''string''
      else if primitive = ''aln::number'' then ''number''
      else if primitive = ''aln::boolean'' then ''boolean''
      else if primitive = ''aln::object'' then ''object''
      else if primitive = ''aln::array'' then ''array''
      else if primitive = ''aln::virtual_object'' then ''virtual_object''
      else if primitive = ''aln::intent'' then ''intent''
      else if primitive = ''aln::plan'' then ''plan''
      else if primitive = ''aln::signal'' then ''signal''
      else primitive)"

text \<open>
  The result of \<^verbatim>\<open>validatePrimitive\<close> is \<^verbatim>\<open>{valid: true}\<close> or
  \<^verbatim>\<open>{valid: false, error}\<close>.
\<close>

datatype primitive_result = Valid | Invalid string

definition validatePrimitive :: "host \<Rightarrow> jsval \<Rightarrow> string \<Rightarrow> exn + primitive_result" where
  "validatePrimitive h v primitive =
     (if primitive = ''aln::string'' then
        (if typeof v = ''string'' then Inr Valid
         else Inr (Invalid (''Expected string for '' @ primitive @ '', got '' @ typeof v)))
      else if primitive = ''aln::number'' then
        (if typeof v = ''number'' \<and> isFiniteNumber v then Inr Valid
         else (case toStringJS h v of
                 Inl e \<Rightarrow> Inl e
               | Inr s \<Rightarrow>
                   Inr (Invalid (''Expected finite number for '' @ primitive @ '', got '' @ s))))
      else if primitive = ''aln::boolean'' then
        (if typeof v = ''boolean'' then Inr Valid
         else Inr (Invalid (''Expected boolean for '' @ primitive @ '', got '' @ typeof v)))
      else if primitive = ''aln::object'' then
        (if typeof v = ''object'' \<and> v \<noteq> Data JNull \<and> \<not> isArray v then Inr Valid
         else Inr (Invalid (''Expected object for '' @ primitive @ '', got ''
                            @ (if isArray v then ''array'' else typeof v))))
      else if primitive = ''aln::array'' then
        (if isArray v then Inr Valid
         else Inr (Invalid (''Expected array for '' @ primitive @ '', got '' @ typeof v)))
      else if primitive = ''aln::virtual_object'' \<or> primitive = ''aln::intent''
              \<or> primitive = ''aln::plan'' \<or> primitive = ''aln::signal'' then
        (if typeof v = ''object'' \<and> v \<noteq> Data JNull then Inr Valid
         else Inr (Invalid (''Expected structured object for '' @ primitive @ '', got ''
                            @ typeof v)))
      else Inr (Invalid (''Unknown primitive type: '' @ primitive)))"

text \<open>
  The result of \<^verbatim>\<open>validateShape\<close>, \<^verbatim>\<open>validateIntentInput\<close> and
  \<^verbatim>\<open>validateMessageEnvelope\<close>.
\<close>

record validation =
  valid :: bool
  errors :: "string list"

text \<open>
  The first loop of \<^verbatim>\<open>validateShape\<close>, over \<^verbatim>\<open>Object.entries(shape)\<close>, with the
  error list as accumulator. An exception of \<^verbatim>\<open>validatePrimitive\<close> leaves the loop.
\<close>

fun checkFields ::
  "host \<Rightarrow> (string \<times> jsdata) list \<Rightarrow> shape \<Rightarrow> string list \<Rightarrow> exn + string list"
where
  "checkFields h payload [] errs = Inr errs"
| "checkFields h payload ((fld, primitive) # rest) errs =
     (if \<not> hasProperty payload fld then
        checkFields h payload rest
          (errs @ [''Missing required field \"'' @ fld @ ''\" (expected ''
                   @ primitiveLabel primitive @ '')''])
      else
        (case validatePrimitive h (getProperty payload fld) primitive of
           Inl e \<Rightarrow> Inl e
         | Inr Valid \<Rightarrow> checkFields h payload rest errs
         | Inr (Invalid err) \<Rightarrow>
             checkFields h payload rest
               (errs @ [''Field \"'' @ fld @ ''\" invalid: '' @ err])))"

text \<open>The second loop, over \<^verbatim>\<open>Object.keys(payload)\<close>.\<close>

fun checkExtraKeys :: "string list \<Rightarrow> string list \<Rightarrow> string list \<Rightarrow> string list" where
  "checkExtraKeys allowedFields [] errs = errs"
| "checkExtraKeys allowedFields (k # ks) errs =
     (if k \<notin> set allowedFields then
        checkExtraKeys allowedFields ks
          (errs @ [''Unexpected field \"'' @ k @ ''\" not defined in shape''])
      else checkExtraKeys allowedFields ks errs)"

text \<open>
  \<^verbatim>\<open>validateShape(payload, shape, allowExtraKeys)\<close>. The shape \<open>None\<close> is the value
  \<^verbatim>\<open>undefined\<close>, which \<^verbatim>\<open>validateIntentInput\<close> passes on for a name the registry
  inherits from \<^verbatim>\<open>Object.prototype\<close>; \<^verbatim>\<open>Object.entries\<close> throws on it.
\<close>

definition validateShape ::
  "host \<Rightarrow> jsdata \<Rightarrow> shape option \<Rightarrow> bool \<Rightarrow> exn + validation"
where
  "validateShape h payload shp allowExtraKeys =
     (case payload of
        JObj kvs \<Rightarrow>
          (case shp of
             None \<Rightarrow> Inl TypeError
           | Some sh \<Rightarrow>
               (case checkFields h kvs sh [] of
                  Inl e \<Rightarrow> Inl e
                | Inr errs \<Rightarrow>
                    (let errs' = (if \<not> allowExtraKeys
                                  then checkExtraKeys (map fst sh) (ownKeys kvs) errs
                                  else errs)
                     in Inr \<lparr>valid = (errs' = []), errors = errs'\<rparr>)))
      | _ \<Rightarrow>
          Inr \<lparr>valid = False,
               errors = [''Payload must be an object, got ''
                         @ (if isArray (Data payload) then ''array''
                            else typeof (Data payload))]\<rparr>)"

text \<open>
  \<^verbatim>\<open>ALNSpec.intents[name]\<close>: a registered intent, a value inherited from
  \<^verbatim>\<open>Object.prototype\<close> (truthy, and without \<^verbatim>\<open>inputShape\<close>), or \<^verbatim>\<open>undefined\<close>.
\<close>

datatype registry_entry = Registered intent_spec | Inherited | Unregistered

definition lookupIntent :: "string \<Rightarrow> registry_entry" where
  "lookupIntent name =
     (case map_of ALNSpec_intents name of
        Some i \<Rightarrow> Registered i
      | None \<Rightarrow> if name \<in> set objectPrototypeKeys then Inherited else Unregistered)"

definition validateIntentInput :: "host \<Rightarrow> string \<Rightarrow> jsdata \<Rightarrow> bool \<Rightarrow> exn + validation" where
  "validateIntentInput h intentName inputPayload allowExtraKeys =
     (case lookupIntent intentName of
        Unregistered \<Rightarrow>
          Inr \<lparr>valid = False, errors = [''Unknown intent \"'' @ intentName @ ''\"'']\<rparr>
      | Inherited \<Rightarrow> validateShape h inputPayload None allowExtraKeys
      | Registered i \<Rightarrow> validateShape h inputPayload (Some (inputShape i)) allowExtraKeys)"

section \<open>Envelope validator\<close>

definition intentKinds :: "string list" where
  "intentKinds = [''aln::intent_request'', ''aln::intent_plan'', ''aln::execution_result'']"

text \<open>
  \<^verbatim>\<open>validateMessageEnvelope\<close> pushes onto one error list from six consecutive blocks;
  each block is a function giving the errors it pushes. The property names it reads
  (\<^verbatim>\<open>id\<close>, \<^verbatim>\<open>kind\<close>, \<^verbatim>\<open>timestamp\<close>, \<^verbatim>\<open>payload\<close>, \<^verbatim>\<open>meta\<close>,
  \<^verbatim>\<open>intent\<close>) are not inherited, so the reads are \<open>field\<close>.
\<close>

fun isNonEmptyString :: "jsdata \<Rightarrow> bool" where
  "isNonEmptyString (JStr s) = (s \<noteq> [])"
| "isNonEmptyString v = False"

fun isKind :: "jsdata \<Rightarrow> string list \<Rightarrow> bool" where
  "isKind (JStr s) ks = (s \<in> set ks)"
| "isKind v ks = False"

fun stringOf :: "jsdata \<Rightarrow> string" where
  "stringOf (JStr s) = s"
| "stringOf v = []"

definition idErrors :: "jsdata \<Rightarrow> string list" where
  "idErrors message =
     (if \<not> isNonEmptyString (field message ''id'')
      then [''Field \"id\" must be a non-empty string''] else [])"

definition kindErrors :: "jsdata \<Rightarrow> string list" where
  "kindErrors message =
     (if \<not> isKind (field message ''kind'') ALNMessageKinds
      then [''Field \"kind\" must be one of '' @ joinWith '', '' ALNMessageKinds] else [])"

definition timestampErrors :: "jsdata \<Rightarrow> string list" where
  "timestampErrors message =
     (if \<not> isFiniteNumber (Data (field message ''timestamp''))
      then [''Field \"timestamp\" must be a finite number in epoch milliseconds''] else [])"

definition payloadErrors :: "jsdata \<Rightarrow> string list" where
  "payloadErrors message =
     (if typeof (Data (field message ''payload'')) \<noteq> ''object''
         \<or> field message ''payload'' = JNull
      then [''Field \"payload\" must be a non-null object''] else [])"

fun hasOwn :: "jsdata \<Rightarrow> string \<Rightarrow> bool" where
  "hasOwn (JObj kvs) k = (k \<in> set (ownKeys kvs))"
| "hasOwn v k = False"

definition metaErrors :: "jsdata \<Rightarrow> string list" where
  "metaErrors message =
     (if hasOwn message ''meta''
         \<and> (typeof (Data (field message ''meta'')) \<noteq> ''object''
            \<or> field message ''meta'' = JNull
            \<or> isArray (Data (field message ''meta'')))
      then [''Field \"meta\", if present, must be a non-null object''] else [])"

definition intentErrors :: "jsdata \<Rightarrow> string list" where
  "intentErrors message =
     (if isKind (field message ''kind'') intentKinds then
        (if \<not> isNonEmptyString (field message ''intent'') then
           [''Field \"intent\" must be a non-empty string for kind ''
            @ stringOf (field message ''kind'')]
         else if lookupIntent (stringOf (field message ''intent'')) = Unregistered then
           [''Unknown intent \"'' @ stringOf (field message ''intent'')
            @ ''\" for message kind '' @ stringOf (field message ''kind'')]
         else [])
      else [])"

definition validateMessageEnvelope :: "jsdata \<Rightarrow> validation" where
  "validateMessageEnvelope message =
     (case message of
        JObj kvs \<Rightarrow>
          (let errs = idErrors message @ kindErrors message @ timestampErrors message
                      @ payloadErrors message @ metaErrors message @ intentErrors message
           in \<lparr>valid = (errs = []), errors = errs\<rparr>)
      | _ \<Rightarrow> \<lparr>valid = False, errors = [''Message must be an object'']\<rparr>)"

section \<open>Envelope factory\<close>

text \<open>
  \<^verbatim>\<open>createIntentRequest(id, intentName, inputPayload, meta)\<close>; \<open>now\<close> is the value of
  \<^verbatim>\<open>Date.now()\<close>, the epoch milliseconds.
\<close>

definition intentRequestEnvelope :: "int \<Rightarrow> jsdata \<Rightarrow> string \<Rightarrow> jsdata \<Rightarrow> jsdata \<Rightarrow> jsdata" where
  "intentRequestEnvelope now ident intentName inputPayload meta =
     JObj ([(''id'', ident), (''kind'', JStr ''aln::intent_request''),
            (''intent'', JStr intentName), (''timestamp'', JNum (Fin (of_int now))),
            (''payload'', inputPayload)]
           @ (if truthy meta then [(''meta'', meta)] else []))"

definition createIntentRequest ::
  "host \<Rightarrow> int \<Rightarrow> jsdata \<Rightarrow> string \<Rightarrow> jsdata \<Rightarrow> jsdata \<Rightarrow> exn + jsdata"
where
  "createIntentRequest h now ident intentName inputPayload meta =
     (case validateIntentInput h intentName inputPayload False of
        Inl e \<Rightarrow> Inl e
      | Inr inputValidation \<Rightarrow>
          if \<not> valid inputValidation then
            Inl (Error (''Invalid input for intent \"'' @ intentName @ ''\": ''
                        @ joinWith ''; '' (errors inputValidation)))
          else
            (let envelope = intentRequestEnvelope now ident intentName inputPayload meta;
                 envelopeValidation = validateMessageEnvelope envelope
             in if \<not> valid envelopeValidation then
                  Inl (Error (''Invalid envelope: ''
                              @ joinWith ''; '' (errors envelopeValidation)))
                else Inr envelope))"

section \<open>Planning kernel\<close>

subsection \<open>String operations\<close>

text \<open>\<^verbatim>\<open>s.toLowerCase()\<close>, on the letters of ASCII.\<close>

definition toLowerChar :: "char \<Rightarrow> char" where
  "toLowerChar c =
     (case map_of (zip ''ABCDEFGHIJKLMNOPQRSTUVWXYZ'' ''abcdefghijklmnopqrstuvwxyz'') c of
        Some d \<Rightarrow> d
      | None \<Rightarrow> c)"

definition toLowerCase :: "string \<Rightarrow> string" where
  "toLowerCase s = map toLowerChar s"

text \<open>\<^verbatim>\<open>s.includes(sub)\<close>: \<open>sub\<close> occurs in \<open>s\<close> as a contiguous substring.\<close>

fun startsWith :: "string \<Rightarrow> string \<Rightarrow> bool" where
  "startsWith s [] = True"
| "startsWith [] (c # cs) = False"
| "startsWith (d # ds) (c # cs) = (d = c \<and> startsWith ds cs)"

fun includesJS :: "string \<Rightarrow> string \<Rightarrow> bool" where
  "includesJS [] sub = (sub = [])"
| "includesJS (c # cs) sub = (startsWith (c # cs) sub \<or> includesJS cs sub)"

text \<open>
  \<^verbatim>\<open>s.trim()\<close> strips the white space and the line terminators of the language. Below
  256 these are the tab, the line feed, the vertical tab, the form feed, the carriage
  return, the space and the no-break space U+00A0.
\<close>

definition isWhiteSpace :: "char \<Rightarrow> bool" where
  "isWhiteSpace c =
     (c \<in> set [CHR 0x09, CHR 0x0A, CHR 0x0B, CHR 0x0C, CHR 0x0D, CHR 0x20, CHR 0xA0])"

definition trim :: "string \<Rightarrow> string" where
  "trim s = rev (dropWhile isWhiteSpace (rev (dropWhile isWhiteSpace s)))"

text \<open>The decimal form of an array index, as a property key.\<close>

definition digitChar :: "nat \<Rightarrow> char" where
  "digitChar d = ''0123456789'' ! (d mod 10)"

function showNat :: "nat \<Rightarrow> string" where
  "showNat n = (if n < 10 then [digitChar n] else showNat (n div 10) @ [digitChar (n mod 10)])"
  by pat_completeness auto
termination
  by (relation "measure (\<lambda>n. n)") auto

declare showNat.simps [simp del]

definition indexKeys :: "nat \<Rightarrow> string list" where
  "indexKeys n = map showNat [0..<n]"

text \<open>
  \<^verbatim>\<open>Object.keys(v)\<close>: the own enumerable string keys; the indices of an array or of a
  string; none for a number or a boolean; a \<^verbatim>\<open>TypeError\<close> for \<^verbatim>\<open>undefined\<close> and
  \<^verbatim>\<open>null\<close>.
\<close>

fun objectKeys :: "jsdata \<Rightarrow> exn + string list" where
  "objectKeys JUndefined = Inl TypeError"
| "objectKeys JNull = Inl TypeError"
| "objectKeys (JObj kvs) = Inr (ownKeys kvs)"
| "objectKeys (JArr xs) = Inr (indexKeys (length xs))"
| "objectKeys (JStr s) = Inr (indexKeys (length s))"
| "objectKeys v = Inr []"

text \<open>
  The properties that \<^verbatim>\<open>{...v}\<close> copies: the own enumerable ones, none for
  \<^verbatim>\<open>undefined\<close>, \<^verbatim>\<open>null\<close>, numbers and booleans.
\<close>

fun spreadEntries :: "jsdata \<Rightarrow> (string \<times> jsdata) list" where
  "spreadEntries (JObj kvs) = kvs"
| "spreadEntries (JArr xs) = zip (indexKeys (length xs)) xs"
| "spreadEntries (JStr s) = zip (indexKeys (length s)) (map (\<lambda>c. JStr [c]) s)"
| "spreadEntries v = []"

text \<open>\<^verbatim>\<open>v || {}\<close>\<close>

definition orEmptyObject :: "jsdata \<Rightarrow> jsdata" where
  "orEmptyObject v = (if truthy v then v else JObj [])"

subsection \<open>The kernel and its constructor\<close>

record kernel =
  modelId :: string
  maxReplicationHours :: real

text \<open>
  \<^verbatim>\<open>new ALNKernel(options)\<close>: \<^verbatim>\<open>options.modelId\<close> is a string or absent,
  \<^verbatim>\<open>options.maxReplicationHours\<close> is any value. The logger is left out: \<^verbatim>\<open>_log\<close>
  swallows its exceptions, and it is taken not to change the objects it is shown.
\<close>

definition newALNKernel :: "string option \<Rightarrow> jsdata \<Rightarrow> kernel" where
  "newALNKernel optModelId optMaxReplicationHours =
     \<lparr>modelId = (case optModelId of
                   Some m \<Rightarrow> if m \<noteq> [] then m else ''aln-runtime-v1''
                 | None \<Rightarrow> ''aln-runtime-v1''),
      maxReplicationHours = (case optMaxReplicationHours of
                               JNum (Fin x) \<Rightarrow> x
                             | _ \<Rightarrow> 24)\<rparr>"

subsection \<open>Plan identifier\<close>

text \<open>The template \<^verbatim>\<open>`${intentText}::${timestamp}::${this.modelId}`\<close>.\<close>

definition planIdInput :: "string \<Rightarrow> string \<Rightarrow> string \<Rightarrow> string" where
  "planIdInput intentText timestamp mid = intentText @ ''::'' @ timestamp @ ''::'' @ mid"

definition generatePlanId :: "host \<Rightarrow> kernel \<Rightarrow> string \<Rightarrow> string \<Rightarrow> string" where
  "generatePlanId h k intentText timestamp =
     take 16 (sha256hex h (planIdInput intentText timestamp (modelId k)))"

subsection \<open>Constraint normalisation\<close>

text \<open>
  The normalised constraint set, with the JavaScript type each field has when
  \<^verbatim>\<open>_normalizeConstraints\<close> returns: \<^verbatim>\<open>language\<close> has been assigned a string,
  the two flags a \<^verbatim>\<open>Boolean(...)\<close>, \<^verbatim>\<open>maxReplicationTimeHours\<close> is a finite number,
  the two lists are arrays, whose elements nothing inspects, and \<^verbatim>\<open>dataResidency\<close> is
  never assigned. \<open>otherKeys\<close> are the caller's properties under other names, which
  the spread copies and nothing reads.
\<close>

record constraint_set =
  language :: string
  requireCompleteness :: bool
  forbidPlaceholders :: bool
  maxReplicationTimeHours :: real
  jurisdictions :: "jsdata list"
  providerPolicies :: "jsdata list"
  dataResidency :: jsdata
  otherKeys :: "(string \<times> jsdata) list"

definition constraintNames :: "string list" where
  "constraintNames =
     [''language'', ''requireCompleteness'', ''forbidPlaceholders'',
      ''maxReplicationTimeHours'', ''jurisdictions'', ''providerPolicies'',
      ''dataResidency'']"

text \<open>
  \<^verbatim>\<open>merged[name]\<close> right after \<^verbatim>\<open>{ ...defaults, ...(constraints || {}) }\<close>: the
  property that the spread copies from the caller's value when there is one, even with the
  value \<^verbatim>\<open>undefined\<close>, and the default otherwise.
\<close>

definition callerProperty :: "jsdata \<Rightarrow> string \<Rightarrow> jsdata option" where
  "callerProperty constraints name =
     map_of (spreadEntries (orEmptyObject constraints)) name"

definition mergedField :: "jsdata \<Rightarrow> string \<Rightarrow> jsdata \<Rightarrow> jsdata" where
  "mergedField constraints name dflt =
     (case callerProperty constraints name of
        Some v \<Rightarrow> v
      | None \<Rightarrow> dflt)"

definition normalizeConstraints :: "kernel \<Rightarrow> jsdata \<Rightarrow> constraint_set" where
  "normalizeConstraints k constraints =
     \<lparr>language =
        (case mergedField constraints ''language'' (JStr ''JavaScript'') of
           JStr s \<Rightarrow> if trim s \<noteq> [] then trim s else ''JavaScript''
         | _ \<Rightarrow> ''JavaScript''),
      requireCompleteness =
        truthy (mergedField constraints ''requireCompleteness'' (JBool True)),
      forbidPlaceholders =
        truthy (mergedField constraints ''forbidPlaceholders'' (JBool True)),
      maxReplicationTimeHours =
        (case mergedField constraints ''maxReplicationTimeHours''
                (JNum (Fin (maxReplicationHours k))) of
           JNum (Fin x) \<Rightarrow> if x \<le> 0 then maxReplicationHours k else x
         | _ \<Rightarrow> maxReplicationHours k),
      jurisdictions =
        (case mergedField constraints ''jurisdictions'' (JArr []) of
           JArr xs \<Rightarrow> xs
         | _ \<Rightarrow> []),
      providerPolicies =
        (case mergedField constraints ''providerPolicies'' (JArr []) of
           JArr xs \<Rightarrow> xs
         | _ \<Rightarrow> []),
      dataResidency = mergedField constraints ''dataResidency'' JNull,
      otherKeys =
        filter (\<lambda>(name, v). name \<notin> set constraintNames)
          (spreadEntries (orEmptyObject constraints))\<rparr>"

subsection \<open>Intent classification\<close>

definition inferIntentType :: "string \<Rightarrow> string" where
  "inferIntentType text =
     (let lower = toLowerCase text in
      if includesJS lower ''workflow'' \<or> includesJS lower ''github'' then ''ci_workflow''
      else if includesJS lower ''repo'' \<or> includesJS lower ''repository'' then ''repository_plan''
      else if includesJS lower ''python'' \<or> includesJS lower ''notebook'' then ''python_interop''
      else if includesJS lower ''policy'' \<or> includesJS lower ''compliance'' then ''policy_plan''
      else ''general_plan'')"

text \<open>
  \<^verbatim>\<open>_matchALNIntents\<close>: a loop over the registry's keys; every rule pushes the key and
  goes on to the next one.
\<close>

definition matchesALNIntent :: "string \<Rightarrow> string \<times> intent_spec \<Rightarrow> bool" where
  "matchesALNIntent lower entry =
     (let ident = fst entry; descr = toLowerCase (description (snd entry)) in
      (includesJS descr ''repository'' \<and> includesJS lower ''repo'')
      \<or> (includesJS ident ''interop_python'' \<and> includesJS lower ''python'')
      \<or> (includesJS ident ''define_virtual_object'' \<and> includesJS lower ''virtual'')
      \<or> (includesJS descr ''policy'' \<and> includesJS lower ''policy''))"

definition matchALNIntents :: "string \<Rightarrow> string list" where
  "matchALNIntents text =
     map fst (filter (matchesALNIntent (toLowerCase text)) ALNSpec_intents)"

subsection \<open>Plan steps\<close>

record plan_step =
  stepId :: string
  stepDescription :: string
  stepOutput :: jsdata
  priority :: string

definition buildIntegrityValidationRules :: "constraint_set \<Rightarrow> jsdata" where
  "buildIntegrityValidationRules constraints =
     JObj [(''requireCompleteness'', JBool (requireCompleteness constraints)),
           (''forbidPlaceholders'', JBool (forbidPlaceholders constraints)),
           (''disallowedPatterns'',
            JArr (map JStr [''TODO'', ''FIXME'', ''placeholder'', ''lorem ipsum'',
                            ''<insert'', ''stub only''])),
           (''minLinesOfCode'', JNum (Fin 1))]"

text \<open>
  \<^verbatim>\<open>_inferEnvironmentHints\<close>. \<^verbatim>\<open>JSON.stringify\<close> gives \<^verbatim>\<open>undefined\<close>, on which
  \<^verbatim>\<open>toLowerCase\<close> throws, for \<^verbatim>\<open>undefined\<close> alone among the data.
\<close>

definition inferEnvironmentHints :: "host \<Rightarrow> jsdata \<Rightarrow> exn + jsdata" where
  "inferEnvironmentHints h ctx =
     (if ctx = JUndefined then Inl TypeError
      else
        (let ctxString = toLowerCase (jsonStringify h ctx);
             hasCI = (includesJS ctxString ''github'' \<or> includesJS ctxString ''gitlab''
                      \<or> includesJS ctxString ''ci'');
             ciProvider =
               (if hasCI then
                  (if includesJS ctxString ''github'' then JStr ''github_actions''
                   else if includesJS ctxString ''gitlab'' then JStr ''gitlab_ci''
                   else JStr ''generic_ci'')
                else JNull);
             hasKubernetes =
               (includesJS ctxString ''kubernetes'' \<or> includesJS ctxString ''k8s'');
             hasNeuromorphicHardware =
               (includesJS ctxString ''neuromorphic'' \<or> includesJS ctxString ''bci''
                \<or> includesJS ctxString ''eeg'');
             runtime =
               (if includesJS ctxString ''node.js'' \<or> includesJS ctxString ''nodejs''
                   \<or> includesJS ctxString ''node'' then JStr ''node''
                else if includesJS ctxString ''browser'' then JStr ''browser''
                else JNull)
         in Inr (JObj [(''hasCI'', JBool hasCI),
                       (''hasKubernetes'', JBool hasKubernetes),
                       (''hasNeuromorphicHardware'', JBool hasNeuromorphicHardware),
                       (''ciProvider'', ciProvider),
                       (''runtime'', runtime)])))"

definition analyzeIntentStep :: "string \<Rightarrow> jsdata \<Rightarrow> plan_step" where
  "analyzeIntentStep intentText intentType =
     \<lparr>stepId = ''analyze-intent'',
      stepDescription = ''Classify intent and map to ALN intents.'',
      stepOutput = JObj [(''intentType'',
                      if truthy intentType then intentType
                      else JStr (inferIntentType intentText)),
                     (''matchedALNIntents'', JArr (map JStr (matchALNIntents intentText)))],
      priority = ''high''\<rparr>"

definition designStructureStep :: "constraint_set \<Rightarrow> plan_step" where
  "designStructureStep constraints =
     \<lparr>stepId = ''design-structure'',
      stepDescription = ''Design structures (files, workflows, compliance hooks).'',
      stepOutput = JObj [(''requiresRepoPlan'', JBool True),
                     (''language'', JStr (language constraints)),
                     (''replicationHours'',
                      JNum (Fin (maxReplicationTimeHours constraints)))],
      priority = ''high''\<rparr>"

definition complianceAlignmentStep :: "constraint_set \<Rightarrow> plan_step" where
  "complianceAlignmentStep constraints =
     \<lparr>stepId = ''compliance-alignment'',
      stepDescription = ''Align plan with declared jurisdictions and policies.'',
      stepOutput = JObj [(''jurisdictions'', JArr (jurisdictions constraints)),
                     (''providerPolicies'', JArr (providerPolicies constraints)),
                     (''dataResidency'', dataResidency constraints)],
      priority = ''high''\<rparr>"

definition enforceIntegrityStep :: "constraint_set \<Rightarrow> plan_step" where
  "enforceIntegrityStep constraints =
     \<lparr>stepId = ''enforce-integrity'',
      stepDescription = ''Require complete, placeholder-free code outputs.'',
      stepOutput = JObj [(''requireCompleteness'', JBool (requireCompleteness constraints)),
                     (''forbidPlaceholders'', JBool (forbidPlaceholders constraints)),
                     (''validationRules'', buildIntegrityValidationRules constraints)],
      priority = ''medium''\<rparr>"

definition contextAlignmentStep :: "string list \<Rightarrow> jsdata \<Rightarrow> plan_step" where
  "contextAlignmentStep contextKeys environmentHints =
     \<lparr>stepId = ''context-alignment'',
      stepDescription = ''Align plan with host system context (chat, CI, runtime).'',
      stepOutput = JObj [(''contextKeys'', JArr (map JStr contextKeys)),
                     (''environmentHints'', environmentHints)],
      priority = ''medium''\<rparr>"

definition replicationStrategyStep :: "constraint_set \<Rightarrow> plan_step" where
  "replicationStrategyStep constraints =
     \<lparr>stepId = ''replication-strategy'',
      stepDescription = ''Guarantee 24-hour replication for a motivated developer.'',
      stepOutput = JObj [(''replicationGuaranteeHours'',
                      JNum (Fin (maxReplicationTimeHours constraints))),
                     (''assumptions'',
                      JArr [JStr ''Node.js LTS and Git available.'',
                            JStr ''GitHub or equivalent git host accessible.'']),
                     (''developerProfile'', JStr ''motivated_single_developer'')],
      priority = ''medium''\<rparr>"

text \<open>
  \<^verbatim>\<open>_synthesizeSteps(intentText, intentType, constraints, context)\<close>: six pushes in
  sequence, two of them behind a condition.
\<close>

definition synthesizeSteps ::
  "host \<Rightarrow> string \<Rightarrow> jsdata \<Rightarrow> constraint_set \<Rightarrow> jsdata \<Rightarrow> exn + plan_step list"
where
  "synthesizeSteps h intentText intentType constraints ctx =
     (let steps1 = [analyzeIntentStep intentText intentType, designStructureStep constraints];
          steps2 = (if jurisdictions constraints \<noteq> [] \<or> providerPolicies constraints \<noteq> []
                    then steps1 @ [complianceAlignmentStep constraints] else steps1);
          steps3 = steps2 @ [enforceIntegrityStep constraints]
      in case objectKeys (orEmptyObject ctx) of
           Inl e \<Rightarrow> Inl e
         | Inr guardKeys \<Rightarrow>
             if length guardKeys > 0 then
               (case objectKeys ctx of
                  Inl e \<Rightarrow> Inl e
                | Inr contextKeys \<Rightarrow>
                    (case inferEnvironmentHints h ctx of
                       Inl e \<Rightarrow> Inl e
                     | Inr hints \<Rightarrow>
                         Inr (steps3 @ [contextAlignmentStep contextKeys hints]
                              @ [replicationStrategyStep constraints])))
             else Inr (steps3 @ [replicationStrategyStep constraints]))"

subsection \<open>Transparency trail\<close>

definition deriveAssumptions :: "string \<Rightarrow> constraint_set \<Rightarrow> string list" where
  "deriveAssumptions intentText constraints =
     [''Outputs are intended for open-source or auditable environments.'',
      ''Target implementation language is '' @ language constraints @ ''.'']
     @ (if maxReplicationTimeHours constraints \<le> 24
        then [''A motivated developer can reproduce outputs within 24 hours.''] else [])
     @ (if jurisdictions constraints \<noteq> []
        then [''Plans must satisfy the strictest overlapping jurisdictional constraints.'']
        else [])
     @ (if includesJS (toLowerCase intentText) ''github''
        then [''GitHub Actions or compatible CI is available.''] else [])"

definition deriveRisks :: "string \<Rightarrow> string list" where
  "deriveRisks intentText =
     (let lower = toLowerCase intentText in
      [''Risk of over-engineering structure for simple tasks.'']
      @ (if includesJS lower ''neuro'' \<or> includesJS lower ''bci'' \<or> includesJS lower ''eeg''
         then [''Neurotech contexts require medical, ethical, and privacy reviews.'']
         else [])
      @ (if includesJS lower ''pii'' \<or> includesJS lower ''personal data''
         then [''Personal data processing must follow privacy and data protection rules.'']
         else [])
      @ (if includesJS lower ''safety'' \<or> includesJS lower ''critical''
         then [''Safety-critical systems require independent validation and redundancy.'']
         else []))"

definition deriveTradeoffs :: "string list" where
  "deriveTradeoffs =
     [''Favor explicit compliance boundaries over opaque behavior.'',
      ''Prefer auditability and reproducibility over micro-optimizations.'',
      ''Prioritize cross-environment determinism over environment-specific hacks.'']"

record transparency_trail =
  trailPlanId :: string
  trailModelId :: string
  trailIntentText :: string
  trailIntentType :: jsdata
  trailConstraints :: constraint_set
  createdAt :: string
  assumptions :: "string list"
  risks :: "string list"
  tradeoffs :: "string list"

record plan_result =
  planId :: string
  steps :: "plan_step list"
  transparencyTrail :: transparency_trail

subsection \<open>\<^verbatim>\<open>reason\<close>\<close>

text \<open>
  \<^verbatim>\<open>reason(intentText, intentType, constraints, context)\<close>; \<open>timestamp\<close> is the value of
  \<^verbatim>\<open>new Date().toISOString()\<close>. An argument left out is \<^verbatim>\<open>undefined\<close>; the default
  \<^verbatim>\<open>{}\<close> of the last two parameters is what \<^verbatim>\<open>|| {}\<close> gives them anyway.
\<close>

definition reason ::
  "host \<Rightarrow> kernel \<Rightarrow> string \<Rightarrow> jsdata \<Rightarrow> jsdata \<Rightarrow> jsdata \<Rightarrow> jsdata \<Rightarrow> exn + plan_result"
where
  "reason h k timestamp intentText intentType constraints ctx =
     (if \<not> truthy intentText \<or> typeof (Data intentText) \<noteq> ''string'' then
        Inl (Error ''ALNKernel.reason: intentText must be a non-empty string.'')
      else
        (let text = stringOf intentText;
             pid = generatePlanId h k text timestamp;
             normalized = normalizeConstraints k constraints;
             resolvedIntentType = (if truthy intentType then intentType
                                   else JStr (inferIntentType text))
         in case synthesizeSteps h text resolvedIntentType normalized (orEmptyObject ctx) of
              Inl e \<Rightarrow> Inl e
            | Inr sts \<Rightarrow>
                Inr \<lparr>planId = pid,
                     steps = sts,
                     transparencyTrail =
                       \<lparr>trailPlanId = pid,
                        trailModelId = modelId k,
                        trailIntentText = text,
                        trailIntentType = resolvedIntentType,
                        trailConstraints = normalized,
                        createdAt = timestamp,
                        assumptions = deriveAssumptions text normalized,
                        risks = deriveRisks text,
                        tradeoffs = deriveTradeoffs\<rparr>\<rparr>))"

section \<open>Notions of the specification\<close>

text \<open>
  The runtime shape of a value, as the specification's rules for the primitive tags speak
  of it. \<^verbatim>\<open>Object.prototype\<close> is an object that is neither \<^verbatim>\<open>null\<close> nor an array.
\<close>

datatype runtime_shape =
    IsUndefined | IsNull | IsBoolean | IsFiniteNumber | IsNonFiniteNumber | IsString
  | IsArray | IsNonArrayObject | IsFunction

fun runtimeShape :: "jsval \<Rightarrow> runtime_shape" where
  "runtimeShape (Data JUndefined) = IsUndefined"
| "runtimeShape (Data JNull) = IsNull"
| "runtimeShape (Data (JBool b)) = IsBoolean"
| "runtimeShape (Data (JNum (Fin x))) = IsFiniteNumber"
| "runtimeShape (Data (JNum NaN)) = IsNonFiniteNumber"
| "runtimeShape (Data (JNum PosInf)) = IsNonFiniteNumber"
| "runtimeShape (Data (JNum NegInf)) = IsNonFiniteNumber"
| "runtimeShape (Data (JStr s)) = IsString"
| "runtimeShape (Data (JArr xs)) = IsArray"
| "runtimeShape (Data (JObj kvs)) = IsNonArrayObject"
| "runtimeShape (BuiltinFunction n) = IsFunction"
| "runtimeShape ObjectPrototype = IsNonArrayObject"

text \<open>
  The structural rule of each tag in the specification's words: a string, a finite
  number, a boolean, a non-null non-array object, an array, and for the four structured
  tags a non-null structured value, that is an object or an array.
\<close>

definition structuralRule :: "jsval \<Rightarrow> string \<Rightarrow> bool" where
  "structuralRule v tag =
     ((tag = ''aln::string'' \<and> runtimeShape v = IsString)
      \<or> (tag = ''aln::number'' \<and> runtimeShape v = IsFiniteNumber)
      \<or> (tag = ''aln::boolean'' \<and> runtimeShape v = IsBoolean)
      \<or> (tag = ''aln::object'' \<and> runtimeShape v = IsNonArrayObject)
      \<or> (tag = ''aln::array'' \<and> runtimeShape v = IsArray)
      \<or> ((tag = ''aln::virtual_object'' \<or> tag = ''aln::intent'' \<or> tag = ''aln::plan''
           \<or> tag = ''aln::signal'')
          \<and> (runtimeShape v = IsNonArrayObject \<or> runtimeShape v = IsArray)))"

text \<open>
  The three kinds of violation of a shape: a required field that is missing, a field that
  is present with a value of the wrong runtime shape, and a key of the payload that the
  shape does not define. Presence is that of the \<^verbatim>\<open>in\<close> operator.
\<close>

definition fieldMissing :: "(string \<times> jsdata) list \<Rightarrow> string \<times> string \<Rightarrow> bool" where
  "fieldMissing kvs entry = (\<not> hasProperty kvs (fst entry))"

definition fieldWrongTyped :: "(string \<times> jsdata) list \<Rightarrow> string \<times> string \<Rightarrow> bool" where
  "fieldWrongTyped kvs entry =
     (hasProperty kvs (fst entry)
      \<and> \<not> structuralRule (getProperty kvs (fst entry)) (snd entry))"

definition keyUnexpected :: "shape \<Rightarrow> string \<Rightarrow> bool" where
  "keyUnexpected sh k = (k \<notin> set (map fst sh))"

text \<open>
  A context with at least one key: a non-empty object, or a value with at least one
  index.
\<close>

fun hasAtLeastOneKey :: "jsdata \<Rightarrow> bool" where
  "hasAtLeastOneKey (JObj kvs) = (kvs \<noteq> [])"
| "hasAtLeastOneKey (JArr xs) = (xs \<noteq> [])"
| "hasAtLeastOneKey (JStr s) = (s \<noteq> [])"
| "hasAtLeastOneKey v = False"

text \<open>
  A case-insensitive substring match of the specification: the word occurs in the text
  once the text is in lower case.
\<close>

definition mentions :: "string \<Rightarrow> string \<Rightarrow> bool" where
  "mentions text word = includesJS (toLowerCase text) word"

text \<open>
  The fixed order of the step identifiers, with the presence of the two optional ones.
\<close>

definition stepOrder :: "bool \<Rightarrow> bool \<Rightarrow> string list" where
  "stepOrder withCompliance withContext =
     [''analyze-intent'', ''design-structure'']
     @ (if withCompliance then [''compliance-alignment''] else [])
     @ [''enforce-integrity'']
     @ (if withContext then [''context-alignment''] else [])
     @ [''replication-strategy'']"

section \<open>A host for closed examples\<close>

text \<open>
  The examples below are evaluated in this host. None of them reaches what it prints.
\<close>

definition exampleHost :: host where
  "exampleHost =
     \<lparr>numberToString = (\<lambda>x. ''0''),
      functionToString = (\<lambda>n. ''function '' @ n @ ''() { [native code] }''),
      jsonStringify = (\<lambda>v. ''null''),
      sha256hex = (\<lambda>s. replicate 64 (CHR ''0''))\<rparr>"

section \<open>Shape validator: properties\<close>

lemma validatePrimitive_Valid_iff:
  "(validatePrimitive h v tag = Inr Valid) = structuralRule v tag"
  by (cases v rule: runtimeShape.cases)
     (auto simp: validatePrimitive_def structuralRule_def split: sum.splits)

lemma validatePrimitive_unknown:
  "tag \<notin> set ALNPrimitives \<Longrightarrow>
     validatePrimitive h v tag = Inr (Invalid (''Unknown primitive type: '' @ tag))"
  by (simp add: validatePrimitive_def ALNPrimitives_def)

text \<open>
  Claim C2. For every value and every tag, \<^verbatim>\<open>validatePrimitive\<close> returns
  \<^verbatim>\<open>{valid: true}\<close> exactly when the runtime shape of the value matches the structural
  rule of the tag: a string, a finite number, a boolean, a non-null non-array object, an
  array, and any non-null object or array for the four structured tags. For a tag outside
  the closed set it returns \<^verbatim>\<open>valid: false\<close> with the unknown-primitive error.
\<close>

theorem validatePrimitive_structural_rule:
  "(validatePrimitive h v tag = Inr Valid) = structuralRule v tag
   \<and> (tag \<notin> set ALNPrimitives \<longrightarrow>
        validatePrimitive h v tag = Inr (Invalid (''Unknown primitive type: '' @ tag)))"
  using validatePrimitive_Valid_iff validatePrimitive_unknown by blast

theorem validatePrimitive_structural_rule_witness:
  "''aln::date'' \<notin> set ALNPrimitives
   \<and> validatePrimitive exampleHost (Data (JNum NaN)) ''aln::date''
       = Inr (Invalid ''Unknown primitive type: aln::date'')
   \<and> \<not> structuralRule (Data (JNum NaN)) ''aln::number''
   \<and> validatePrimitive exampleHost (Data (JNum NaN)) ''aln::number'' \<noteq> Inr Valid"
  using validatePrimitive_structural_rule [of exampleHost "Data (JNum NaN)" "''aln::date''"]
    validatePrimitive_structural_rule [of exampleHost "Data (JNum NaN)" "''aln::number''"]
  by (simp add: ALNPrimitives_def structuralRule_def)

text \<open>
  Claim C10. Every array is valid under each of the four structured tags
  \<^verbatim>\<open>aln::virtual_object\<close>, \<^verbatim>\<open>aln::intent\<close>, \<^verbatim>\<open>aln::plan\<close> and \<^verbatim>\<open>aln::signal\<close>,
  and rejected under \<^verbatim>\<open>aln::object\<close>; so \<^verbatim>\<open>validateShape\<close> accepts a payload whose
  field, declared with a structured tag, holds an array.
\<close>

theorem structured_tags_accept_arrays:
  "validatePrimitive h (Data (JArr xs)) ''aln::virtual_object'' = Inr Valid
   \<and> validatePrimitive h (Data (JArr xs)) ''aln::intent'' = Inr Valid
   \<and> validatePrimitive h (Data (JArr xs)) ''aln::plan'' = Inr Valid
   \<and> validatePrimitive h (Data (JArr xs)) ''aln::signal'' = Inr Valid
   \<and> validatePrimitive h (Data (JArr xs)) ''aln::object''
       = Inr (Invalid ''Expected object for aln::object, got array'')
   \<and> validateShape h (JObj [(f, JArr xs)]) (Some [(f, ''aln::virtual_object'')]) False
       = Inr \<lparr>valid = True, errors = []\<rparr>
   \<and> validateShape h (JObj [(f, JArr xs)]) (Some [(f, ''aln::intent'')]) False
       = Inr \<lparr>valid = True, errors = []\<rparr>
   \<and> validateShape h (JObj [(f, JArr xs)]) (Some [(f, ''aln::plan'')]) False
       = Inr \<lparr>valid = True, errors = []\<rparr>
   \<and> validateShape h (JObj [(f, JArr xs)]) (Some [(f, ''aln::signal'')]) False
       = Inr \<lparr>valid = True, errors = []\<rparr>"
  by (simp add: validatePrimitive_def validateShape_def hasProperty_def getProperty_def
        ownKeys_def)

theorem structured_tags_accept_arrays_witness:
  "validatePrimitive exampleHost (Data (JArr [JStr ''a'', JNull])) ''aln::plan'' = Inr Valid
   \<and> validatePrimitive exampleHost (Data (JArr [JStr ''a'', JNull])) ''aln::object''
       = Inr (Invalid ''Expected object for aln::object, got array'')
   \<and> validateShape exampleHost (JObj [(''plan'', JArr [JStr ''a'', JNull])])
        (Some [(''plan'', ''aln::plan'')]) False
       = Inr \<lparr>valid = True, errors = []\<rparr>"
  using structured_tags_accept_arrays [of exampleHost "[JStr ''a'', JNull]" "''plan''"]
  by simp

text \<open>
  Claim C9. The validators are meant never to raise. \<^verbatim>\<open>validatePrimitive\<close> raises all the
  same: for the tag \<^verbatim>\<open>aln::number\<close> it builds its error message with
  \<^verbatim>\<open>String(value)\<close>, which throws a \<^verbatim>\<open>TypeError\<close> for the object
  \<^verbatim>\<open>{toString: 1}\<close> (as \<^verbatim>\<open>JSON.parse\<close> yields it), where every other branch prints
  \<^verbatim>\<open>typeof value\<close>. \<^verbatim>\<open>validateShape\<close> raises with it on a field holding such a
  value. \<^verbatim>\<open>validateIntentInput\<close> raises on the name \<^verbatim>\<open>constructor\<close>, which the
  registry inherits: it finds no \<^verbatim>\<open>inputShape\<close> there and hands \<^verbatim>\<open>undefined\<close> to
  \<^verbatim>\<open>validateShape\<close>.
\<close>

theorem validators_raise_TypeError:
  "validatePrimitive h (Data (JObj [(''toString'', JNum (Fin 1))])) ''aln::number''
     = Inl TypeError
   \<and> validateShape h (JObj [(''count'', JObj [(''toString'', JNum (Fin 1))])])
        (Some [(''count'', ''aln::number'')]) False = Inl TypeError
   \<and> validateIntentInput h ''constructor'' (JObj []) False = Inl TypeError"
  by (simp add: validatePrimitive_def validateShape_def hasProperty_def getProperty_def
        ownKeys_def validateIntentInput_def lookupIntent_def ALNSpec_intents_def
        objectPrototypeKeys_def)

text \<open>
  Claim C1. \<^verbatim>\<open>validateShape\<close> is meant to report every violation in one pass. On the
  payload \<^verbatim>\<open>{a: {toString: 1}}\<close> and the shape
  \<^verbatim>\<open>{a: "aln::number", b: "aln::string"}\<close>, with one wrongly typed and one missing
  field, it reports nothing: the \<^verbatim>\<open>TypeError\<close> of claim C9 leaves the loop.
\<close>

theorem validateShape_raises_instead_of_reporting:
  "fieldWrongTyped [(''a'', JObj [(''toString'', JNum (Fin 1))])] (''a'', ''aln::number'')
   \<and> fieldMissing [(''a'', JObj [(''toString'', JNum (Fin 1))])] (''b'', ''aln::string'')
   \<and> validateShape h (JObj [(''a'', JObj [(''toString'', JNum (Fin 1))])])
         (Some [(''a'', ''aln::number''), (''b'', ''aln::string'')]) False = Inl TypeError"
  by (simp add: validatePrimitive_def validateShape_def hasProperty_def getProperty_def
        ownKeys_def objectPrototypeKeys_def fieldWrongTyped_def fieldMissing_def
        structuralRule_def)

text \<open>
  A field is present when \<^verbatim>\<open>in\<close> finds it, on the payload or on
  \<^verbatim>\<open>Object.prototype\<close>: the empty payload passes the shape
  \<^verbatim>\<open>{"__proto__": "aln::object"}\<close>.
\<close>

lemma inherited_property_is_present:
  "validateShape h (JObj []) (Some [(''__proto__'', ''aln::object'')]) False
     = Inr \<lparr>valid = True, errors = []\<rparr>"
  by (simp add: validatePrimitive_def validateShape_def hasProperty_def getProperty_def
        ownKeys_def objectPrototypeKeys_def)

text \<open>Scenario A of the specification: one missing field, one error.\<close>

lemma validateShape_scenario_A:
  "validateShape h (JObj [(''name'', JStr ''x'')])
     (Some [(''name'', ''aln::string''), (''description'', ''aln::string'')]) False
   = Inr \<lparr>valid = False,
          errors = [''Missing required field \"description\" (expected string)'']\<rparr>"
  by (simp add: validatePrimitive_def validateShape_def hasProperty_def getProperty_def
        ownKeys_def objectPrototypeKeys_def)

subsection \<open>What \<^verbatim>\<open>validateShape\<close> reports when it returns\<close>

text \<open>
  \<^verbatim>\<open>validatePrimitive\<close> returns a result unless the tag is \<^verbatim>\<open>aln::number\<close> and
  \<^verbatim>\<open>String(value)\<close> throws. Wherever \<^verbatim>\<open>validateShape\<close> returns, it reports one error
  for each missing field, one for each wrongly typed field and one for each unexpected key,
  and it returns \<^verbatim>\<open>valid: true\<close> exactly for the payloads without any violation.
\<close>

lemma validatePrimitive_cases:
  "validatePrimitive h v tag = Inr Valid
   \<or> (\<exists>e. validatePrimitive h v tag = Inr (Invalid e))
   \<or> (validatePrimitive h v tag = Inl TypeError \<and> tag = ''aln::number''
       \<and> toStringJS h v = Inl TypeError)"
proof (cases "tag = ''aln::number''")
  case False
  then show ?thesis by (simp add: validatePrimitive_def)
next
  case True
  have "toStringJS h v = Inl TypeError \<or> (\<exists>s. toStringJS h v = Inr s)"
  proof (cases "toStringJS h v")
    case (Inl e)
    have "\<And>e. toStringData h d = Inl e \<Longrightarrow> e = TypeError"
      and "\<And>e. joinElements h ds = Inl e \<Longrightarrow> e = TypeError" for d ds
      by (induction h d and h ds rule: toStringData_joinElements.induct)
         (auto split: sum.splits if_splits)
    with Inl show ?thesis by (cases v) auto
  next
    case (Inr s)
    then show ?thesis by simp
  qed
  with True show ?thesis by (auto simp: validatePrimitive_def)
qed

lemma checkFields_step:
  "checkFields h p ((f, t) # sh) errs
     = (if \<not> hasProperty p f then
          checkFields h p sh (errs @ [''Missing required field \"'' @ f @ ''\" (expected ''
                   @ primitiveLabel t @ '')''])
        else (case validatePrimitive h (getProperty p f) t of
           Inl e \<Rightarrow> Inl e
         | Inr Valid \<Rightarrow> checkFields h p sh errs
         | Inr (Invalid err) \<Rightarrow>
             checkFields h p sh (errs @ [''Field \"'' @ f @ ''\" invalid: '' @ err])))"
  by simp

lemma checkFields_acc:
  "checkFields h p sh errs
     = (case checkFields h p sh [] of Inl e \<Rightarrow> Inl e | Inr es \<Rightarrow> Inr (errs @ es))"
proof (induction sh arbitrary: errs)
  case Nil
  show ?case by simp
next
  case (Cons entry sh)
  obtain f t where entry: "entry = (f, t)" by (cases entry)
  have step: "checkFields h p sh (errs @ [m])
       = (case checkFields h p sh [m] of Inl e \<Rightarrow> Inl e | Inr es \<Rightarrow> Inr (errs @ es))" for m
    using Cons.IH [of "errs @ [m]"] Cons.IH [of "[m]"]
    by (simp split: sum.splits)
  show ?case
  proof (cases "hasProperty p f")
    case False
    then show ?thesis
      unfolding entry checkFields_step using step by simp
  next
    case True
    consider "validatePrimitive h (getProperty p f) t = Inr Valid"
      | e where "validatePrimitive h (getProperty p f) t = Inr (Invalid e)"
      | e where "validatePrimitive h (getProperty p f) t = Inl e"
      by (cases "validatePrimitive h (getProperty p f) t" rule: sum.exhaust)
         (metis primitive_result.exhaust)+
    then show ?thesis
    proof cases
      case 1
      with True show ?thesis
        unfolding entry checkFields_step using Cons.IH [of errs] by simp
    next
      case 2
      with True show ?thesis
        unfolding entry checkFields_step using step by simp
    next
      case 3
      with True show ?thesis
        unfolding entry checkFields_step by simp
    qed
  qed
qed


lemma checkExtraKeys_eq:
  "checkExtraKeys allowed ks errs
     = errs @ map (\<lambda>k. ''Unexpected field \"'' @ k @ ''\" not defined in shape'')
                (filter (\<lambda>k. k \<notin> set allowed) ks)"
  by (induction ks arbitrary: errs) simp_all

lemma entry_status:
  "fieldMissing kvs (f, t) \<or> fieldWrongTyped kvs (f, t)
   \<or> (hasProperty kvs f \<and> structuralRule (getProperty kvs f) t)"
  "\<not> (fieldMissing kvs (f, t) \<and> fieldWrongTyped kvs (f, t))"
  by (auto simp: fieldMissing_def fieldWrongTyped_def)

lemma checkFields_count:
  "checkFields h kvs sh [] = Inr es
   \<Longrightarrow> length es = length (filter (fieldMissing kvs) sh)
                   + length (filter (fieldWrongTyped kvs) sh)"
proof (induction sh arbitrary: es)
  case Nil
  then show ?case by simp
next
  case (Cons entry sh)
  obtain f t where entry: "entry = (f, t)" by (cases entry)
  show ?case
  proof (cases "hasProperty kvs f")
    case False
    let ?m = "''Missing required field \"'' @ f @ ''\" (expected '' @ primitiveLabel t @ '')''"
    from False Cons.prems have "checkFields h kvs sh ([] @ [?m]) = Inr es"
      unfolding entry checkFields_step by simp
    then obtain es' where es': "checkFields h kvs sh [] = Inr es'" "es = [?m] @ es'"
      using checkFields_acc [of h kvs sh "[?m]"] by (auto split: sum.splits)
    from Cons.IH [OF es'(1)] es'(2) False show ?thesis
      by (simp add: entry fieldMissing_def fieldWrongTyped_def)
  next
    case True
    consider "validatePrimitive h (getProperty kvs f) t = Inr Valid"
      | e where "validatePrimitive h (getProperty kvs f) t = Inr (Invalid e)"
      | e where "validatePrimitive h (getProperty kvs f) t = Inl e"
      by (cases "validatePrimitive h (getProperty kvs f) t" rule: sum.exhaust)
         (metis primitive_result.exhaust)+
    then show ?thesis
    proof cases
      case 1
      with True Cons.prems have "checkFields h kvs sh [] = Inr es"
        unfolding entry checkFields_step by simp
      moreover from 1 have "structuralRule (getProperty kvs f) t"
        using validatePrimitive_Valid_iff [of h "getProperty kvs f" t] by simp
      ultimately show ?thesis
        using Cons.IH [of es] True
        by (simp add: entry fieldMissing_def fieldWrongTyped_def)
    next
      case 2
      let ?m = "''Field \"'' @ f @ ''\" invalid: '' @ e"
      from True 2 Cons.prems have "checkFields h kvs sh ([] @ [?m]) = Inr es"
        unfolding entry checkFields_step by simp
      then obtain es' where es': "checkFields h kvs sh [] = Inr es'" "es = [?m] @ es'"
        using checkFields_acc [of h kvs sh "[?m]"] by (auto split: sum.splits)
      from 2 have "\<not> structuralRule (getProperty kvs f) t"
        using validatePrimitive_Valid_iff [of h "getProperty kvs f" t] by simp
      with Cons.IH [OF es'(1)] es'(2) True show ?thesis
        by (simp add: entry fieldMissing_def fieldWrongTyped_def)
    next
      case 3
      with True Cons.prems show ?thesis
        unfolding entry checkFields_step by simp
    qed
  qed
qed

lemma checkFields_all_ok:
  "\<forall>e \<in> set sh. \<not> fieldMissing kvs e \<and> \<not> fieldWrongTyped kvs e
   \<Longrightarrow> checkFields h kvs sh [] = Inr []"
proof (induction sh)
  case Nil
  show ?case by simp
next
  case (Cons entry sh)
  obtain f t where entry: "entry = (f, t)" by (cases entry)
  from Cons.prems have "hasProperty kvs f" "structuralRule (getProperty kvs f) t"
    by (auto simp: entry fieldMissing_def fieldWrongTyped_def)
  then have "hasProperty kvs f" "validatePrimitive h (getProperty kvs f) t = Inr Valid"
    by (simp_all add: validatePrimitive_Valid_iff)
  with Cons show ?case
    unfolding entry checkFields_step by simp
qed

lemma validateShape_error_count:
  assumes "validateShape h (JObj kvs) (Some sh) False = Inr r"
  shows "length (errors r)
           = length (filter (fieldMissing kvs) sh)
             + length (filter (fieldWrongTyped kvs) sh)
             + length (filter (keyUnexpected sh) (ownKeys kvs))"
    and "valid r = (errors r = [])"
proof -
  from assms obtain es where es: "checkFields h kvs sh [] = Inr es"
    and r: "r = \<lparr>valid = (checkExtraKeys (map fst sh) (ownKeys kvs) es = []),
                  errors = checkExtraKeys (map fst sh) (ownKeys kvs) es\<rparr>"
    by (auto simp: validateShape_def Let_def split: sum.splits)
  have "(\<lambda>k. k \<notin> set (map fst sh)) = keyUnexpected sh"
    by (simp add: keyUnexpected_def fun_eq_iff)
  then show "length (errors r)
           = length (filter (fieldMissing kvs) sh)
             + length (filter (fieldWrongTyped kvs) sh)
             + length (filter (keyUnexpected sh) (ownKeys kvs))"
    using checkFields_count [OF es] by (simp add: r checkExtraKeys_eq)
  show "valid r = (errors r = [])"
    by (simp add: r)
qed

lemma validateShape_valid_iff:
  "(\<exists>r. validateShape h payload (Some sh) False = Inr r \<and> valid r)
   = (\<exists>kvs. payload = JObj kvs
        \<and> (\<forall>e \<in> set sh. \<not> fieldMissing kvs e \<and> \<not> fieldWrongTyped kvs e)
        \<and> (\<forall>k \<in> set (ownKeys kvs). \<not> keyUnexpected sh k))"
proof
  assume "\<exists>r. validateShape h payload (Some sh) False = Inr r \<and> valid r"
  then obtain r where r: "validateShape h payload (Some sh) False = Inr r" "valid r"
    by blast
  then obtain kvs where kvs: "payload = JObj kvs"
    by (cases payload) (auto simp: validateShape_def)
  from validateShape_error_count [OF r(1) [unfolded kvs]] r(2)
  have "length (filter (fieldMissing kvs) sh) = 0"
    "length (filter (fieldWrongTyped kvs) sh) = 0"
    "length (filter (keyUnexpected sh) (ownKeys kvs)) = 0"
    by simp_all
  then have "(\<forall>e \<in> set sh. \<not> fieldMissing kvs e \<and> \<not> fieldWrongTyped kvs e)
        \<and> (\<forall>k \<in> set (ownKeys kvs). \<not> keyUnexpected sh k)"
    by (simp add: filter_empty_conv)
  with kvs show "\<exists>kvs. payload = JObj kvs
        \<and> (\<forall>e \<in> set sh. \<not> fieldMissing kvs e \<and> \<not> fieldWrongTyped kvs e)
        \<and> (\<forall>k \<in> set (ownKeys kvs). \<not> keyUnexpected sh k)"
    by blast
next
  assume "\<exists>kvs. payload = JObj kvs
        \<and> (\<forall>e \<in> set sh. \<not> fieldMissing kvs e \<and> \<not> fieldWrongTyped kvs e)
        \<and> (\<forall>k \<in> set (ownKeys kvs). \<not> keyUnexpected sh k)"
  then obtain kvs where kvs: "payload = JObj kvs"
    and ok: "\<forall>e \<in> set sh. \<not> fieldMissing kvs e \<and> \<not> fieldWrongTyped kvs e"
    and keys: "\<forall>k \<in> set (ownKeys kvs). \<not> keyUnexpected sh k"
    by blast
  from keys have "filter (\<lambda>k. k \<notin> set (map fst sh)) (ownKeys kvs) = []"
    by (simp add: filter_empty_conv keyUnexpected_def)
  then have "validateShape h payload (Some sh) False = Inr \<lparr>valid = True, errors = []\<rparr>"
    using checkFields_all_ok [OF ok, of h]
    by (simp add: validateShape_def kvs checkExtraKeys_eq)
  then show "\<exists>r. validateShape h payload (Some sh) False = Inr r \<and> valid r"
    by simp
qed

lemma validateShape_raises_only_for_number:
  assumes "validateShape h (JObj kvs) (Some sh) allow = Inl e"
  shows "e = TypeError
         \<and> (\<exists>f. (f, ''aln::number'') \<in> set sh \<and> hasProperty kvs f
                \<and> toStringJS h (getProperty kvs f) = Inl TypeError)"
proof -
  have "checkFields h kvs sh errs = Inl e
        \<Longrightarrow> e = TypeError
         \<and> (\<exists>f. (f, ''aln::number'') \<in> set sh \<and> hasProperty kvs f
                \<and> toStringJS h (getProperty kvs f) = Inl TypeError)" for errs
  proof (induction sh arbitrary: errs)
    case Nil
    then show ?case by simp
  next
    case (Cons entry sh)
    obtain f t where entry: "entry = (f, t)" by (cases entry)
    show ?case
    proof (cases "hasProperty kvs f")
      case False
      with Cons.prems Cons.IH show ?thesis
        unfolding entry checkFields_step by auto
    next
      case True
      from validatePrimitive_cases [of h "getProperty kvs f" t]
      show ?thesis
      proof (elim disjE exE conjE)
        assume "validatePrimitive h (getProperty kvs f) t = Inr Valid"
        with True Cons.prems Cons.IH show ?thesis
          unfolding entry checkFields_step by auto
      next
        fix m assume "validatePrimitive h (getProperty kvs f) t = Inr (Invalid m)"
        with True Cons.prems Cons.IH show ?thesis
          unfolding entry checkFields_step by auto
      next
        assume *: "validatePrimitive h (getProperty kvs f) t = Inl TypeError"
          "t = ''aln::number''" "toStringJS h (getProperty kvs f) = Inl TypeError"
        with True Cons.prems have "e = TypeError"
          unfolding entry checkFields_step by simp
        with * True show ?thesis
          by (auto simp: entry)
      qed
    qed
  qed
  with assms show ?thesis
    by (auto simp: validateShape_def Let_def split: sum.splits)
qed

section \<open>Envelope validator: properties\<close>

lemma fixed_errors_not_unknown_intent:
  "e \<in> set (idErrors m @ kindErrors m @ timestampErrors m @ payloadErrors m @ metaErrors m)
   \<Longrightarrow> \<not> startsWith e ''Unknown intent''"
  by (auto simp: idErrors_def kindErrors_def timestampErrors_def payloadErrors_def
        metaErrors_def split: if_splits)

lemma intentKinds_allowed: "isKind v intentKinds \<Longrightarrow> isKind v ALNMessageKinds"
  by (cases v) (auto simp: intentKinds_def ALNMessageKinds_def)

text \<open>
  Claim C3, as the code has it. For a message of an intent-bearing kind whose
  \<^verbatim>\<open>intent\<close> is not a non-empty string, \<^verbatim>\<open>validateMessageEnvelope\<close> reports one
  error for the intent field, the one of the non-empty-string rule, after the errors of
  the other fields; the registry is consulted only in the \<^verbatim>\<open>else\<close> branch, so no
  unknown-intent error comes with it.
\<close>

theorem envelope_intent_one_error:
  assumes kind: "isKind (field m ''kind'') intentKinds"
    and bad: "\<not> isNonEmptyString (field m ''intent'')"
  shows "errors (validateMessageEnvelope m)
           = idErrors m @ timestampErrors m @ payloadErrors m @ metaErrors m
             @ [''Field \"intent\" must be a non-empty string for kind ''
                @ stringOf (field m ''kind'')]
         \<and> (\<forall>e \<in> set (errors (validateMessageEnvelope m)).
               \<not> startsWith e ''Unknown intent'')"
proof -
  let ?own = "''Field \"intent\" must be a non-empty string for kind ''
              @ stringOf (field m ''kind'')"
  from kind obtain kvs where m: "m = JObj kvs"
    by (cases m) simp_all
  have k: "kindErrors m = []"
    using intentKinds_allowed [OF kind] by (simp add: kindErrors_def)
  have i: "intentErrors m = [?own]"
    using kind bad by (simp add: intentErrors_def)
  have "errors (validateMessageEnvelope (JObj kvs))
          = idErrors (JObj kvs) @ kindErrors (JObj kvs) @ timestampErrors (JObj kvs)
            @ payloadErrors (JObj kvs) @ metaErrors (JObj kvs) @ intentErrors (JObj kvs)"
    by (simp add: validateMessageEnvelope_def Let_def)
  with m k i have e: "errors (validateMessageEnvelope m)
             = idErrors m @ timestampErrors m @ payloadErrors m @ metaErrors m @ [?own]"
    by simp
  have "\<not> startsWith e ''Unknown intent''"
    if "e \<in> set (errors (validateMessageEnvelope m))" for e
  proof -
    from that e k
    have "e \<in> set (idErrors m @ kindErrors m @ timestampErrors m @ payloadErrors m
                     @ metaErrors m) \<or> e = ?own"
      by auto
    then show ?thesis
    proof
      assume "e \<in> set (idErrors m @ kindErrors m @ timestampErrors m @ payloadErrors m
                         @ metaErrors m)"
      then show ?thesis by (rule fixed_errors_not_unknown_intent)
    next
      assume "e = ?own"
      then show ?thesis by simp
    qed
  qed
  with e show ?thesis by blast
qed

theorem envelope_intent_one_error_witness:
  "isKind (field (JObj [(''kind'', JStr ''aln::intent_plan''), (''intent'', JNum (Fin 7))])
            ''kind'') intentKinds
   \<and> \<not> isNonEmptyString
         (field (JObj [(''kind'', JStr ''aln::intent_plan''), (''intent'', JNum (Fin 7))])
            ''intent'')
   \<and> errors (validateMessageEnvelope
               (JObj [(''kind'', JStr ''aln::intent_plan''), (''intent'', JNum (Fin 7))]))
      = [''Field \"id\" must be a non-empty string'',
         ''Field \"timestamp\" must be a finite number in epoch milliseconds'',
         ''Field \"payload\" must be a non-null object'',
         ''Field \"intent\" must be a non-empty string for kind aln::intent_plan'']"
  using envelope_intent_one_error
          [of "JObj [(''kind'', JStr ''aln::intent_plan''), (''intent'', JNum (Fin 7))]"]
  by (simp add: intentKinds_def idErrors_def timestampErrors_def payloadErrors_def
        metaErrors_def ownKeys_def)

text \<open>The intent block pushes at most one error, whatever the message.\<close>

lemma intentErrors_at_most_one: "length (intentErrors m) \<le> 1"
  by (simp add: intentErrors_def)

text \<open>
  Claim C3 as stated fails: in this intent-request the \<^verbatim>\<open>intent\<close> is the empty string,
  which is not a non-empty string and names no registered intent, and the message is
  otherwise well formed; the validator reports one error, not two.
\<close>

theorem envelope_intent_two_errors_counterexample:
  "isKind (field (JObj [(''id'', JStr ''m-1''), (''kind'', JStr ''aln::intent_request''),
                        (''intent'', JStr ''''), (''timestamp'', JNum (Fin 0)),
                        (''payload'', JObj [])]) ''kind'') intentKinds
   \<and> \<not> isNonEmptyString (JStr '''')
   \<and> lookupIntent '''' = Unregistered
   \<and> errors (validateMessageEnvelope
        (JObj [(''id'', JStr ''m-1''), (''kind'', JStr ''aln::intent_request''),
               (''intent'', JStr ''''), (''timestamp'', JNum (Fin 0)),
               (''payload'', JObj [])]))
      = [''Field \"intent\" must be a non-empty string for kind aln::intent_request'']"
  by (simp add: validateMessageEnvelope_def idErrors_def kindErrors_def timestampErrors_def
        payloadErrors_def metaErrors_def intentErrors_def intentKinds_def ALNMessageKinds_def
        lookupIntent_def ALNSpec_intents_def objectPrototypeKeys_def ownKeys_def)

section \<open>Envelope factory: properties\<close>

lemma validateShape_valid_object:
  "validateShape h payload shp allow = Inr v \<Longrightarrow> valid v
   \<Longrightarrow> \<exists>kvs sh. payload = JObj kvs \<and> shp = Some sh"
  by (cases payload; cases shp) (auto simp: validateShape_def)

lemma validateIntentInput_valid_registered:
  assumes "validateIntentInput h intentName inputPayload allow = Inr v" and "valid v"
  shows "(\<exists>i. lookupIntent intentName = Registered i) \<and> (\<exists>kvs. inputPayload = JObj kvs)"
proof (cases "lookupIntent intentName")
  case (Registered i)
  with assms show ?thesis
    using validateShape_valid_object by (fastforce simp: validateIntentInput_def)
next
  case Inherited
  with assms show ?thesis
    using validateShape_valid_object [of h inputPayload None allow v]
    by (simp add: validateIntentInput_def)
next
  case Unregistered
  with assms show ?thesis by (auto simp: validateIntentInput_def)
qed

lemma registered_nonempty: "lookupIntent name = Registered i \<Longrightarrow> name \<noteq> []"
  by (auto simp: lookupIntent_def ALNSpec_intents_def objectPrototypeKeys_def
        split: if_splits)

lemma field_envelope:
  "field (intentRequestEnvelope now ident intentName inputPayload meta) ''id'' = ident"
  "field (intentRequestEnvelope now ident intentName inputPayload meta) ''kind''
     = JStr ''aln::intent_request''"
  "field (intentRequestEnvelope now ident intentName inputPayload meta) ''intent''
     = JStr intentName"
  "field (intentRequestEnvelope now ident intentName inputPayload meta) ''timestamp''
     = JNum (Fin (of_int now))"
  "field (intentRequestEnvelope now ident intentName inputPayload meta) ''payload''
     = inputPayload"
  "field (intentRequestEnvelope now ident intentName inputPayload meta) ''meta''
     = (if truthy meta then meta else JUndefined)"
  "hasOwn (intentRequestEnvelope now ident intentName inputPayload meta) ''meta''
     = truthy meta"
  by (auto simp: intentRequestEnvelope_def ownKeys_def)

lemma envelope_errors:
  assumes reg: "lookupIntent intentName = Registered i"
    and obj: "inputPayload = JObj kvs"
  shows "validateMessageEnvelope (intentRequestEnvelope now ident intentName inputPayload meta)
         = \<lparr>valid = (isNonEmptyString ident \<and> (\<not> truthy meta \<or> (\<exists>mkvs. meta = JObj mkvs))),
            errors =
              (if isNonEmptyString ident then []
               else [''Field \"id\" must be a non-empty string''])
              @ (if \<not> truthy meta \<or> (\<exists>mkvs. meta = JObj mkvs) then []
                 else [''Field \"meta\", if present, must be a non-null object''])\<rparr>"
proof -
  let ?e = "intentRequestEnvelope now ident intentName inputPayload meta"
  have 1: "idErrors ?e = (if isNonEmptyString ident then []
                          else [''Field \"id\" must be a non-empty string''])"
    by (simp add: idErrors_def field_envelope)
  have 2: "kindErrors ?e = []"
    by (simp add: kindErrors_def field_envelope ALNMessageKinds_def)
  have 3: "timestampErrors ?e = []"
    by (simp add: timestampErrors_def field_envelope)
  have 4: "payloadErrors ?e = []"
    using obj by (simp add: payloadErrors_def field_envelope)
  have 5: "metaErrors ?e = (if \<not> truthy meta \<or> (\<exists>mkvs. meta = JObj mkvs) then []
                            else [''Field \"meta\", if present, must be a non-null object''])"
    by (cases meta rule: truthy.cases) (simp_all add: metaErrors_def field_envelope)
  have 6: "intentErrors ?e = []"
    using reg registered_nonempty [OF reg] by (simp add: intentErrors_def field_envelope)
  obtain ekvs where e: "?e = JObj ekvs"
    by (simp add: intentRequestEnvelope_def)
  have "validateMessageEnvelope ?e
          = \<lparr>valid = (idErrors ?e @ kindErrors ?e @ timestampErrors ?e @ payloadErrors ?e
                       @ metaErrors ?e @ intentErrors ?e = []),
             errors = idErrors ?e @ kindErrors ?e @ timestampErrors ?e @ payloadErrors ?e
                       @ metaErrors ?e @ intentErrors ?e\<rparr>"
    unfolding e by (simp add: validateMessageEnvelope_def Let_def)
  then show ?thesis
    by (simp add: 1 2 3 4 5 6)
qed

text \<open>
  Claim C8, as the code has it. Once the input-shape validation has passed, the envelope
  re-validation passes too and \<^verbatim>\<open>createIntentRequest\<close> returns the assembled envelope
  exactly when the \<^verbatim>\<open>id\<close> is a non-empty string and \<^verbatim>\<open>meta\<close> is falsy (then left
  out) or a non-array object: these two the shape validation never looks at, and the
  envelope validation is where they are checked. For any other \<^verbatim>\<open>id\<close> or \<^verbatim>\<open>meta\<close>
  the function throws the envelope error, with the error of the \<^verbatim>\<open>id\<close>, of the
  \<^verbatim>\<open>meta\<close>, or both.
\<close>

theorem createIntentRequest_returns_envelope:
  assumes ok: "validateIntentInput h intentName inputPayload False = Inr v" "valid v"
  shows "(isNonEmptyString ident \<and> (\<not> truthy meta \<or> (\<exists>mkvs. meta = JObj mkvs))
          \<longrightarrow> validateMessageEnvelope
                (intentRequestEnvelope now ident intentName inputPayload meta)
                = \<lparr>valid = True, errors = []\<rparr>
              \<and> createIntentRequest h now ident intentName inputPayload meta
                = Inr (intentRequestEnvelope now ident intentName inputPayload meta))
         \<and> (\<not> (isNonEmptyString ident \<and> (\<not> truthy meta \<or> (\<exists>mkvs. meta = JObj mkvs)))
          \<longrightarrow> \<not> valid (validateMessageEnvelope
                        (intentRequestEnvelope now ident intentName inputPayload meta))
              \<and> createIntentRequest h now ident intentName inputPayload meta
                = Inl (Error (''Invalid envelope: ''
                    @ joinWith ''; ''
                        ((if isNonEmptyString ident then []
                          else [''Field \"id\" must be a non-empty string''])
                         @ (if \<not> truthy meta \<or> (\<exists>mkvs. meta = JObj mkvs) then []
                            else [''Field \"meta\", if present, must be a non-null object''])))))"
proof -
  from validateIntentInput_valid_registered [OF ok]
  obtain i kvs where "lookupIntent intentName = Registered i" "inputPayload = JObj kvs"
    by blast
  from envelope_errors [OF this, of now ident meta] show ?thesis
    using ok by (simp add: createIntentRequest_def)
qed

theorem createIntentRequest_returns_envelope_witness:
  "validateIntentInput exampleHost ''aln::plan_repository''
      (JObj [(''description'', JStr ''demo''), (''constraints'', JObj [])]) False
     = Inr \<lparr>valid = True, errors = []\<rparr>
   \<and> isNonEmptyString (JStr ''req-1'')
   \<and> createIntentRequest exampleHost 1700000000000 (JStr ''req-1'') ''aln::plan_repository''
      (JObj [(''description'', JStr ''demo''), (''constraints'', JObj [])])
      (JObj [(''trace'', JStr ''t'')])
     = Inr (JObj [(''id'', JStr ''req-1''), (''kind'', JStr ''aln::intent_request''),
                  (''intent'', JStr ''aln::plan_repository''),
                  (''timestamp'', JNum (Fin 1700000000000)),
                  (''payload'',
                   JObj [(''description'', JStr ''demo''), (''constraints'', JObj [])]),
                  (''meta'', JObj [(''trace'', JStr ''t'')])])
   \<and> \<not> isNonEmptyString (JNum (Fin 7))
   \<and> truthy (JArr [])
   \<and> createIntentRequest exampleHost 1700000000000 (JNum (Fin 7)) ''aln::plan_repository''
      (JObj [(''description'', JStr ''demo''), (''constraints'', JObj [])]) (JArr [])
     = Inl (Error (''Invalid envelope: Field \"id\" must be a non-empty string; ''
                   @ ''Field \"meta\", if present, must be a non-null object''))"
proof -
  have v: "validateIntentInput exampleHost ''aln::plan_repository''
      (JObj [(''description'', JStr ''demo''), (''constraints'', JObj [])]) False
     = Inr \<lparr>valid = True, errors = []\<rparr>"
    by (simp add: validateIntentInput_def lookupIntent_def ALNSpec_intents_def
          validateShape_def validatePrimitive_def hasProperty_def getProperty_def ownKeys_def)
  show ?thesis
    using v
      createIntentRequest_returns_envelope
        [OF v, of "JStr ''req-1''" "JObj [(''trace'', JStr ''t'')]" 1700000000000]
      createIntentRequest_returns_envelope
        [OF v, of "JNum (Fin 7)" "JArr []" 1700000000000]
    by (simp add: intentRequestEnvelope_def)
qed

text \<open>
  Claim C8 as stated fails: with the empty string as \<^verbatim>\<open>id\<close> the input-shape validation
  passes and the envelope re-validation throws.
\<close>

theorem createIntentRequest_envelope_error_counterexample:
  "validateIntentInput exampleHost ''aln::plan_repository''
      (JObj [(''description'', JStr ''demo''), (''constraints'', JObj [])]) False
     = Inr \<lparr>valid = True, errors = []\<rparr>
   \<and> createIntentRequest exampleHost 0 (JStr '''') ''aln::plan_repository''
      (JObj [(''description'', JStr ''demo''), (''constraints'', JObj [])]) JUndefined
     = Inl (Error ''Invalid envelope: Field \"id\" must be a non-empty string'')"
  by (simp add: createIntentRequest_def validateIntentInput_def lookupIntent_def
        ALNSpec_intents_def validateShape_def validatePrimitive_def hasProperty_def
        getProperty_def ownKeys_def intentRequestEnvelope_def validateMessageEnvelope_def
        idErrors_def kindErrors_def timestampErrors_def payloadErrors_def metaErrors_def
        intentErrors_def intentKinds_def ALNMessageKinds_def)

section \<open>Planning kernel: properties\<close>

subsection \<open>Constraint normalisation\<close>

lemma trim_JavaScript: "trim ''JavaScript'' = ''JavaScript''"
  by (simp add: trim_def isWhiteSpace_def)

lemma language_field:
  "language (normalizeConstraints k c)
     = (case callerProperty c ''language'' of
          Some (JStr s) \<Rightarrow> if trim s \<noteq> [] then trim s else ''JavaScript''
        | _ \<Rightarrow> ''JavaScript'')"
  by (simp add: normalizeConstraints_def mergedField_def trim_JavaScript
        split: option.split jsdata.split)

lemma language_nonempty: "language (normalizeConstraints k c) \<noteq> []"
  unfolding language_field by (simp split: option.split jsdata.split)

lemma flags_field:
  "requireCompleteness (normalizeConstraints k c)
     = (case callerProperty c ''requireCompleteness'' of Some v \<Rightarrow> truthy v | None \<Rightarrow> True)"
  "forbidPlaceholders (normalizeConstraints k c)
     = (case callerProperty c ''forbidPlaceholders'' of Some v \<Rightarrow> truthy v | None \<Rightarrow> True)"
  by (simp_all add: normalizeConstraints_def mergedField_def split: option.split)

lemma hours_field:
  "maxReplicationTimeHours (normalizeConstraints k c)
     = (case callerProperty c ''maxReplicationTimeHours'' of
          Some (JNum (Fin x)) \<Rightarrow> if 0 < x then x else maxReplicationHours k
        | _ \<Rightarrow> maxReplicationHours k)"
  by (simp add: normalizeConstraints_def mergedField_def
        split: option.split jsdata.split jsnum.split)

lemma lists_field:
  "jurisdictions (normalizeConstraints k c)
     = (case callerProperty c ''jurisdictions'' of Some (JArr xs) \<Rightarrow> xs | _ \<Rightarrow> [])"
  "providerPolicies (normalizeConstraints k c)
     = (case callerProperty c ''providerPolicies'' of Some (JArr xs) \<Rightarrow> xs | _ \<Rightarrow> [])"
  by (simp_all add: normalizeConstraints_def mergedField_def split: option.split jsdata.split)

lemma residency_field:
  "dataResidency (normalizeConstraints k c)
     = (case callerProperty c ''dataResidency'' of Some v \<Rightarrow> v | None \<Rightarrow> JNull)"
  by (simp add: normalizeConstraints_def mergedField_def split: option.split)

lemma hours_positive:
  "0 < maxReplicationHours k \<Longrightarrow> 0 < maxReplicationTimeHours (normalizeConstraints k c)"
  by (simp add: hours_field split: option.split jsdata.split jsnum.split)

text \<open>A language of white space alone, the no-break space included, is blank.\<close>

lemma language_blank:
  "language (normalizeConstraints k
      (JObj [(''language'', JStr [CHR 0x20, CHR 0xA0, CHR 0x09])])) = ''JavaScript''"
  by (simp add: normalizeConstraints_def mergedField_def callerProperty_def
        orEmptyObject_def trim_def isWhiteSpace_def)

subsection \<open>\<^verbatim>\<open>reason\<close> returns\<close>

lemma indexKeys_eq_Nil: "(indexKeys n = []) = (n = 0)"
  by (simp add: indexKeys_def)

lemma objectKeys_truthy:
  "truthy c \<Longrightarrow> \<exists>ks. objectKeys c = Inr ks \<and> (ks \<noteq> []) = hasAtLeastOneKey c"
  by (cases c) (auto simp: ownKeys_def indexKeys_eq_Nil)

lemma orEmptyObject_truthy: "truthy (orEmptyObject c)"
  by (simp add: orEmptyObject_def)

lemma orEmptyObject_idem: "truthy c \<Longrightarrow> orEmptyObject c = c"
  by (simp add: orEmptyObject_def)

lemma hasAtLeastOneKey_orEmptyObject:
  "hasAtLeastOneKey (orEmptyObject c) = hasAtLeastOneKey c"
  by (cases c rule: truthy.cases) (simp_all add: orEmptyObject_def)

lemma inferEnvironmentHints_truthy: "truthy c \<Longrightarrow> \<exists>v. inferEnvironmentHints h c = Inr v"
  by (cases "c = JUndefined") (auto simp: inferEnvironmentHints_def Let_def)

lemma stepIds:
  "stepId (analyzeIntentStep s ty) = ''analyze-intent''"
  "stepId (designStructureStep n) = ''design-structure''"
  "stepId (complianceAlignmentStep n) = ''compliance-alignment''"
  "stepId (enforceIntegrityStep n) = ''enforce-integrity''"
  "stepId (contextAlignmentStep ks hints) = ''context-alignment''"
  "stepId (replicationStrategyStep n) = ''replication-strategy''"
  by (simp_all add: analyzeIntentStep_def designStructureStep_def complianceAlignmentStep_def
        enforceIntegrityStep_def contextAlignmentStep_def replicationStrategyStep_def)

lemma synthesizeSteps_ids:
  assumes c: "truthy c"
  shows "\<exists>rest. synthesizeSteps h s ty n c = Inr (analyzeIntentStep s ty # rest)
           \<and> map stepId (analyzeIntentStep s ty # rest)
             = stepOrder (jurisdictions n \<noteq> [] \<or> providerPolicies n \<noteq> [])
                 (hasAtLeastOneKey c)"
proof -
  from objectKeys_truthy [OF c] obtain ks
    where ks: "objectKeys c = Inr ks" "(ks \<noteq> []) = hasAtLeastOneKey c"
    by blast
  from inferEnvironmentHints_truthy [OF c] obtain v
    where v: "inferEnvironmentHints h c = Inr v"
    by blast
  show ?thesis
    using ks v orEmptyObject_idem [OF c]
    by (cases "hasAtLeastOneKey c")
       (auto simp: synthesizeSteps_def stepOrder_def stepIds Let_def)
qed

lemma inferIntentType_nonempty: "inferIntentType t \<noteq> []"
  by (simp add: inferIntentType_def Let_def)

lemma analyzeIntentStep_output:
  "truthy ty \<Longrightarrow> field (stepOutput (analyzeIntentStep s ty)) ''intentType'' = ty"
  by (simp add: analyzeIntentStep_def)

text \<open>
  A call with a non-empty string as \<open>intentText\<close> returns, and this is what it returns.
\<close>

lemma reason_returns:
  assumes t: "t \<noteq> []"
  shows "\<exists>rest. reason h k ts (JStr t) ty c ctx
           = Inr \<lparr>planId = generatePlanId h k t ts,
                  steps = analyzeIntentStep t
                            (if truthy ty then ty else JStr (inferIntentType t)) # rest,
                  transparencyTrail =
                    \<lparr>trailPlanId = generatePlanId h k t ts,
                     trailModelId = modelId k,
                     trailIntentText = t,
                     trailIntentType = (if truthy ty then ty else JStr (inferIntentType t)),
                     trailConstraints = normalizeConstraints k c,
                     createdAt = ts,
                     assumptions = deriveAssumptions t (normalizeConstraints k c),
                     risks = deriveRisks t,
                     tradeoffs = deriveTradeoffs\<rparr>\<rparr>
         \<and> map stepId (analyzeIntentStep t
                          (if truthy ty then ty else JStr (inferIntentType t)) # rest)
           = stepOrder (jurisdictions (normalizeConstraints k c) \<noteq> []
                        \<or> providerPolicies (normalizeConstraints k c) \<noteq> [])
               (hasAtLeastOneKey ctx)"
proof -
  let ?ty = "if truthy ty then ty else JStr (inferIntentType t)"
  from synthesizeSteps_ids [OF orEmptyObject_truthy]
  obtain rest where
    "synthesizeSteps h t ?ty (normalizeConstraints k c) (orEmptyObject ctx)
       = Inr (analyzeIntentStep t ?ty # rest)"
    "map stepId (analyzeIntentStep t ?ty # rest)
       = stepOrder (jurisdictions (normalizeConstraints k c) \<noteq> []
                    \<or> providerPolicies (normalizeConstraints k c) \<noteq> [])
           (hasAtLeastOneKey (orEmptyObject ctx))"
    by blast
  then show ?thesis
    using t
    by (cases "truthy ty") (simp_all add: reason_def Let_def hasAtLeastOneKey_orEmptyObject)
qed

subsection \<open>Claims on the kernel\<close>

text \<open>
  Claim C4, as the code has it. For every constraints argument, the normalised set has a
  non-empty string as \<^verbatim>\<open>language\<close> (the caller's, trimmed, or \<^verbatim>\<open>JavaScript\<close>), two
  boolean flags (the truthiness of the caller's values, true when absent), and a finite
  \<^verbatim>\<open>maxReplicationTimeHours\<close> that is the caller's number when positive and finite and
  the kernel-level default in every other case, never a clamped value, and so positive
  whenever the kernel-level default is; \<^verbatim>\<open>jurisdictions\<close> and
  \<^verbatim>\<open>providerPolicies\<close> are the caller's arrays as they are, whatever their elements,
  or the empty sequence when not arrays; \<^verbatim>\<open>dataResidency\<close> is the caller's value as
  it is, of any type, or \<^verbatim>\<open>null\<close> when absent. Each field depends on the caller's
  property of the same name alone, and the set so normalised is the one a valid call to
  \<^verbatim>\<open>reason\<close> plans with.
\<close>

theorem normalizeConstraints_fields:
  "language (normalizeConstraints k c) \<noteq> []
   \<and> language (normalizeConstraints k c)
       = (case callerProperty c ''language'' of
            Some (JStr s) \<Rightarrow> if trim s \<noteq> [] then trim s else ''JavaScript''
          | _ \<Rightarrow> ''JavaScript'')
   \<and> requireCompleteness (normalizeConstraints k c)
       = (case callerProperty c ''requireCompleteness'' of
            Some v \<Rightarrow> truthy v
          | None \<Rightarrow> True)
   \<and> forbidPlaceholders (normalizeConstraints k c)
       = (case callerProperty c ''forbidPlaceholders'' of
            Some v \<Rightarrow> truthy v
          | None \<Rightarrow> True)
   \<and> maxReplicationTimeHours (normalizeConstraints k c)
       = (case callerProperty c ''maxReplicationTimeHours'' of
            Some (JNum (Fin x)) \<Rightarrow> if 0 < x then x else maxReplicationHours k
          | _ \<Rightarrow> maxReplicationHours k)
   \<and> (0 < maxReplicationHours k \<longrightarrow> 0 < maxReplicationTimeHours (normalizeConstraints k c))
   \<and> jurisdictions (normalizeConstraints k c)
       = (case callerProperty c ''jurisdictions'' of Some (JArr xs) \<Rightarrow> xs | _ \<Rightarrow> [])
   \<and> providerPolicies (normalizeConstraints k c)
       = (case callerProperty c ''providerPolicies'' of Some (JArr xs) \<Rightarrow> xs | _ \<Rightarrow> [])
   \<and> dataResidency (normalizeConstraints k c)
       = (case callerProperty c ''dataResidency'' of Some v \<Rightarrow> v | None \<Rightarrow> JNull)
   \<and> (t \<noteq> [] \<longrightarrow>
        (\<exists>r. reason h k ts (JStr t) ty c ctx = Inr r
            \<and> trailConstraints (transparencyTrail r) = normalizeConstraints k c))"
proof -
  have "\<exists>r. reason h k ts (JStr t) ty c ctx = Inr r
            \<and> trailConstraints (transparencyTrail r) = normalizeConstraints k c"
    if "t \<noteq> []"
    using reason_returns [OF that, of h k ts ty c ctx] by auto
  then show ?thesis
    using language_nonempty [of k c] language_field [of k c] flags_field [of k c]
      hours_field [of k c] hours_positive [of k c] lists_field [of k c]
      residency_field [of k c]
    by blast
qed

theorem normalizeConstraints_fields_witness:
  "language (normalizeConstraints (newALNKernel None JUndefined)
       (JObj [(''language'', JStr ''  ''), (''maxReplicationTimeHours'', JNum (Fin 0)),
              (''jurisdictions'', JStr ''EU''), (''forbidPlaceholders'', JNum (Fin 0))]))
     = ''JavaScript''
   \<and> maxReplicationTimeHours (normalizeConstraints (newALNKernel None JUndefined)
       (JObj [(''language'', JStr ''  ''), (''maxReplicationTimeHours'', JNum (Fin 0)),
              (''jurisdictions'', JStr ''EU''), (''forbidPlaceholders'', JNum (Fin 0))]))
     = 24
   \<and> jurisdictions (normalizeConstraints (newALNKernel None JUndefined)
       (JObj [(''language'', JStr ''  ''), (''maxReplicationTimeHours'', JNum (Fin 0)),
              (''jurisdictions'', JStr ''EU''), (''forbidPlaceholders'', JNum (Fin 0))]))
     = []
   \<and> \<not> forbidPlaceholders (normalizeConstraints (newALNKernel None JUndefined)
       (JObj [(''language'', JStr ''  ''), (''maxReplicationTimeHours'', JNum (Fin 0)),
              (''jurisdictions'', JStr ''EU''), (''forbidPlaceholders'', JNum (Fin 0))]))
   \<and> 0 < maxReplicationHours (newALNKernel None JUndefined)
   \<and> ''plan'' \<noteq> []
   \<and> (\<exists>r. reason exampleHost (newALNKernel None JUndefined) ''2026-01-01T00:00:00.000Z''
             (JStr ''plan'') JUndefined
             (JObj [(''language'', JStr ''  ''), (''maxReplicationTimeHours'', JNum (Fin 0)),
                    (''jurisdictions'', JStr ''EU''), (''forbidPlaceholders'', JNum (Fin 0))])
             JUndefined = Inr r
          \<and> trailConstraints (transparencyTrail r)
            = normalizeConstraints (newALNKernel None JUndefined)
               (JObj [(''language'', JStr ''  ''), (''maxReplicationTimeHours'', JNum (Fin 0)),
                      (''jurisdictions'', JStr ''EU''),
                      (''forbidPlaceholders'', JNum (Fin 0))]))"
  using normalizeConstraints_fields
          [of "newALNKernel None JUndefined"
              "JObj [(''language'', JStr ''  ''), (''maxReplicationTimeHours'', JNum (Fin 0)),
                     (''jurisdictions'', JStr ''EU''), (''forbidPlaceholders'', JNum (Fin 0))]"
              "''plan''" exampleHost "''2026-01-01T00:00:00.000Z''" JUndefined JUndefined]
  by (simp add: callerProperty_def orEmptyObject_def newALNKernel_def trim_def
        isWhiteSpace_def)

text \<open>
  Claim C4 as stated fails: an array of numbers stays as \<^verbatim>\<open>jurisdictions\<close>, the
  number 42 stays as \<^verbatim>\<open>dataResidency\<close>, and on a kernel built with
  \<^verbatim>\<open>maxReplicationHours: -5\<close> the replication bound falls back to -5.
\<close>

theorem normalizeConstraints_types_counterexample:
  "jurisdictions (normalizeConstraints (newALNKernel None JUndefined)
      (JObj [(''jurisdictions'', JArr [JNum (Fin 1)]), (''dataResidency'', JNum (Fin 42))]))
     = [JNum (Fin 1)]
   \<and> dataResidency (normalizeConstraints (newALNKernel None JUndefined)
      (JObj [(''jurisdictions'', JArr [JNum (Fin 1)]), (''dataResidency'', JNum (Fin 42))]))
     = JNum (Fin 42)
   \<and> maxReplicationTimeHours
       (normalizeConstraints (newALNKernel None (JNum (Fin (- 5)))) JUndefined) = - 5"
  by (simp add: normalizeConstraints_def mergedField_def callerProperty_def orEmptyObject_def
        newALNKernel_def)

lemma planId_collision:
  "\<exists>m m'. m \<noteq> m'
     \<and> generatePlanId h (k\<lparr>modelId := m\<rparr>) s ts = generatePlanId h (k\<lparr>modelId := m'\<rparr>) s ts"
proof (rule ccontr)
  let ?f = "\<lambda>m. generatePlanId h (k\<lparr>modelId := m\<rparr>) s ts"
  assume "\<not> ?thesis"
  then have inj: "inj ?f"
    by (auto simp: inj_on_def)
  have "range ?f \<subseteq> {xs. set xs \<subseteq> UNIV \<and> length xs \<le> 16}"
    by (auto simp: generatePlanId_def)
  moreover have "finite {xs::string. set xs \<subseteq> UNIV \<and> length xs \<le> 16}"
    by (rule finite_lists_length_le) simp
  ultimately have "finite (UNIV :: string set)"
    using inj by (rule inj_on_finite [rotated])
  then show False
    by (simp add: infinite_UNIV_listI)
qed

text \<open>
  The plan identifier. With the clock frozen, two calls to \<^verbatim>\<open>reason\<close> with the same
  \<open>intentText\<close> on kernels with the same \<open>modelId\<close> return the same \<open>planId\<close>,
  whatever their other arguments: the first 16 characters of the hexadecimal SHA-256
  digest of \<^verbatim>\<open>{intentText}::{timestamp}::{modelId}\<close>. Another \<open>modelId\<close> gives another
  string to hash. Whether the identifier then differs is a matter of the digest: it is
  what SHA-256 is trusted for, and not a property of every pair of strings, as
  \<open>planId_collision\<close> shows for any digest function.
\<close>

lemma planId_deterministic:
  assumes "t \<noteq> []" and "modelId k' = modelId k"
  shows "\<exists>r r'. reason h k ts (JStr t) ty c ctx = Inr r
           \<and> reason h k' ts (JStr t) ty' c' ctx' = Inr r'
           \<and> planId r = planId r'
           \<and> planId r = take 16 (sha256hex h (t @ ''::'' @ ts @ ''::'' @ modelId k))
           \<and> (\<forall>m m'. (planIdInput t ts m = planIdInput t ts m') = (m = m'))"
  using reason_returns [OF assms(1), of h k ts ty c ctx]
    reason_returns [OF assms(1), of h k' ts ty' c' ctx'] assms(2)
  by (auto simp: generatePlanId_def planIdInput_def)

text \<open>
  The constructor replaces an empty \<open>modelId\<close> by the default, so the options
  \<^verbatim>\<open>{modelId: ""}\<close> and \<^verbatim>\<open>{modelId: "aln-runtime-v1"}\<close> give one and the same kernel.
\<close>

lemma empty_modelId_is_default:
  "newALNKernel (Some '''') v = newALNKernel (Some ''aln-runtime-v1'') v"
  by (simp add: newALNKernel_def)

lemma inferIntentType_rules:
  "(mentions t ''workflow'' \<or> mentions t ''github'' \<longrightarrow> inferIntentType t = ''ci_workflow'')
   \<and> (\<not> (mentions t ''workflow'' \<or> mentions t ''github'')
        \<and> (mentions t ''repo'' \<or> mentions t ''repository'')
       \<longrightarrow> inferIntentType t = ''repository_plan'')
   \<and> (\<not> (mentions t ''workflow'' \<or> mentions t ''github'')
        \<and> \<not> (mentions t ''repo'' \<or> mentions t ''repository'')
        \<and> (mentions t ''python'' \<or> mentions t ''notebook'')
       \<longrightarrow> inferIntentType t = ''python_interop'')
   \<and> (\<not> (mentions t ''workflow'' \<or> mentions t ''github'')
        \<and> \<not> (mentions t ''repo'' \<or> mentions t ''repository'')
        \<and> \<not> (mentions t ''python'' \<or> mentions t ''notebook'')
        \<and> (mentions t ''policy'' \<or> mentions t ''compliance'')
       \<longrightarrow> inferIntentType t = ''policy_plan'')
   \<and> (\<not> (mentions t ''workflow'' \<or> mentions t ''github'')
        \<and> \<not> (mentions t ''repo'' \<or> mentions t ''repository'')
        \<and> \<not> (mentions t ''python'' \<or> mentions t ''notebook'')
        \<and> \<not> (mentions t ''policy'' \<or> mentions t ''compliance'')
       \<longrightarrow> inferIntentType t = ''general_plan'')"
  by (simp add: inferIntentType_def mentions_def Let_def)

text \<open>
  Claim C6, as the code has it. For every valid call to \<^verbatim>\<open>reason\<close>, the resolved intent
  type, in the transparency trail and in the output of the first step, is the
  caller-supplied \<open>intentType\<close> whenever that is truthy; a falsy one, the empty string
  among them, counts as absent. Otherwise the type is inferred from the text by
  case-insensitive substring match, the first rule that matches winning:
  workflow or github give \<^verbatim>\<open>ci_workflow\<close>, else repo or repository give
  \<^verbatim>\<open>repository_plan\<close>, else python or notebook give \<^verbatim>\<open>python_interop\<close>, else policy or
  compliance give \<^verbatim>\<open>policy_plan\<close>, else \<^verbatim>\<open>general_plan\<close>.
\<close>

theorem resolved_intent_type:
  assumes "t \<noteq> []"
  shows "(\<exists>r. reason h k ts (JStr t) ty c ctx = Inr r
            \<and> trailIntentType (transparencyTrail r)
              = (if truthy ty then ty else JStr (inferIntentType t))
            \<and> field (stepOutput (hd (steps r))) ''intentType''
              = (if truthy ty then ty else JStr (inferIntentType t)))
   \<and> (mentions t ''workflow'' \<or> mentions t ''github'' \<longrightarrow> inferIntentType t = ''ci_workflow'')
   \<and> (\<not> (mentions t ''workflow'' \<or> mentions t ''github'')
        \<and> (mentions t ''repo'' \<or> mentions t ''repository'')
       \<longrightarrow> inferIntentType t = ''repository_plan'')
   \<and> (\<not> (mentions t ''workflow'' \<or> mentions t ''github'')
        \<and> \<not> (mentions t ''repo'' \<or> mentions t ''repository'')
        \<and> (mentions t ''python'' \<or> mentions t ''notebook'')
       \<longrightarrow> inferIntentType t = ''python_interop'')
   \<and> (\<not> (mentions t ''workflow'' \<or> mentions t ''github'')
        \<and> \<not> (mentions t ''repo'' \<or> mentions t ''repository'')
        \<and> \<not> (mentions t ''python'' \<or> mentions t ''notebook'')
        \<and> (mentions t ''policy'' \<or> mentions t ''compliance'')
       \<longrightarrow> inferIntentType t = ''policy_plan'')
   \<and> (\<not> (mentions t ''workflow'' \<or> mentions t ''github'')
        \<and> \<not> (mentions t ''repo'' \<or> mentions t ''repository'')
        \<and> \<not> (mentions t ''python'' \<or> mentions t ''notebook'')
        \<and> \<not> (mentions t ''policy'' \<or> mentions t ''compliance'')
       \<longrightarrow> inferIntentType t = ''general_plan'')"
proof -
  let ?ty = "if truthy ty then ty else JStr (inferIntentType t)"
  have ty: "truthy ?ty"
    by (simp add: inferIntentType_nonempty)
  from reason_returns [OF assms, of h k ts ty c ctx] obtain rest r
    where r: "reason h k ts (JStr t) ty c ctx = Inr r"
      "steps r = analyzeIntentStep t ?ty # rest"
      "trailIntentType (transparencyTrail r) = ?ty"
    by auto
  from r(2) have "field (stepOutput (hd (steps r))) ''intentType'' = ?ty"
    using analyzeIntentStep_output [OF ty] by simp
  with r(1,3) have "\<exists>r. reason h k ts (JStr t) ty c ctx = Inr r
            \<and> trailIntentType (transparencyTrail r) = ?ty
            \<and> field (stepOutput (hd (steps r))) ''intentType'' = ?ty"
    by blast
  then show ?thesis
    using inferIntentType_rules [of t] by blast
qed

text \<open>
  Scenario B of the specification: the text mentions both a workflow and a repository,
  and the workflow rule comes first.
\<close>

theorem resolved_intent_type_witness:
  "''Plan a repository with a GitHub workflow'' \<noteq> []
   \<and> mentions ''Plan a repository with a GitHub workflow'' ''workflow''
   \<and> mentions ''Plan a repository with a GitHub workflow'' ''repo''
   \<and> inferIntentType ''Plan a repository with a GitHub workflow'' = ''ci_workflow''
   \<and> (\<exists>r. reason exampleHost (newALNKernel None JUndefined) ''2026-01-01T00:00:00.000Z''
             (JStr ''Plan a repository with a GitHub workflow'') JUndefined JUndefined
             JUndefined = Inr r
         \<and> trailIntentType (transparencyTrail r) = JStr ''ci_workflow'')"
proof -
  have m: "mentions ''Plan a repository with a GitHub workflow'' ''workflow''"
    by (simp add: mentions_def toLowerCase_def toLowerChar_def)
  have m2: "mentions ''Plan a repository with a GitHub workflow'' ''repo''"
    by (simp add: mentions_def toLowerCase_def toLowerChar_def)
  have n: "''Plan a repository with a GitHub workflow'' \<noteq> []"
    by simp
  show ?thesis
    using m m2 n
      resolved_intent_type
        [OF n, of exampleHost "newALNKernel None JUndefined" "''2026-01-01T00:00:00.000Z''"
           JUndefined JUndefined JUndefined]
    by auto
qed

text \<open>
  Claim C6 as stated fails: the caller supplies the empty string as \<open>intentType\<close>, and
  the resolved type is the inferred one.
\<close>

theorem resolved_intent_type_counterexample:
  "map_sum id (trailIntentType \<circ> transparencyTrail)
     (reason exampleHost (newALNKernel None JUndefined) ''2026-01-01T00:00:00.000Z''
        (JStr ''Plan a repo'') (JStr '''') JUndefined JUndefined)
   = Inr (JStr ''repository_plan'')"
proof -
  have n: "''Plan a repo'' \<noteq> []"
    by simp
  have i: "inferIntentType ''Plan a repo'' = ''repository_plan''"
    by (simp add: inferIntentType_def toLowerCase_def toLowerChar_def Let_def)
  from reason_returns
         [OF n, of exampleHost "newALNKernel None JUndefined" "''2026-01-01T00:00:00.000Z''"
            "JStr ''''" JUndefined JUndefined]
  show ?thesis
    using i by auto
qed

text \<open>
  Claim C7. Every valid call to \<^verbatim>\<open>reason\<close> returns its steps in the fixed order
  analyze-intent, design-structure, compliance-alignment, enforce-integrity,
  context-alignment, replication-strategy: the first two, the fourth and the last always,
  compliance-alignment exactly when the normalised \<^verbatim>\<open>jurisdictions\<close> or
  \<^verbatim>\<open>providerPolicies\<close> is non-empty, and context-alignment exactly when the context
  has at least one key.
\<close>

theorem steps_fixed_order:
  assumes "t \<noteq> []"
  shows "\<exists>r. reason h k ts (JStr t) ty c ctx = Inr r
           \<and> map stepId (steps r)
             = stepOrder (jurisdictions (normalizeConstraints k c) \<noteq> []
                          \<or> providerPolicies (normalizeConstraints k c) \<noteq> [])
                 (hasAtLeastOneKey ctx)"
  using reason_returns [OF assms, of h k ts ty c ctx] by auto

theorem steps_fixed_order_witness:
  "''Plan a repository with a GitHub workflow'' \<noteq> []
   \<and> (\<exists>r. reason exampleHost (newALNKernel None JUndefined) ''2026-01-01T00:00:00.000Z''
             (JStr ''Plan a repository with a GitHub workflow'') JUndefined JUndefined
             JUndefined = Inr r
          \<and> map stepId (steps r)
            = [''analyze-intent'', ''design-structure'', ''enforce-integrity'',
               ''replication-strategy''])
   \<and> (\<exists>r. reason exampleHost (newALNKernel None JUndefined) ''2026-01-01T00:00:00.000Z''
             (JStr ''Plan a repository with a GitHub workflow'') JUndefined
             (JObj [(''providerPolicies'', JArr [JStr ''no-pii''])])
             (JObj [(''ci'', JStr ''github'')]) = Inr r
          \<and> map stepId (steps r)
            = [''analyze-intent'', ''design-structure'', ''compliance-alignment'',
               ''enforce-integrity'', ''context-alignment'', ''replication-strategy''])"
proof -
  have n: "''Plan a repository with a GitHub workflow'' \<noteq> []"
    by simp
  have a: "jurisdictions (normalizeConstraints (newALNKernel None JUndefined) JUndefined) = []"
    "providerPolicies (normalizeConstraints (newALNKernel None JUndefined) JUndefined) = []"
    by (simp_all add: normalizeConstraints_def mergedField_def callerProperty_def
          orEmptyObject_def)
  have b: "providerPolicies (normalizeConstraints (newALNKernel None JUndefined)
             (JObj [(''providerPolicies'', JArr [JStr ''no-pii''])])) = [JStr ''no-pii'']"
    by (simp add: normalizeConstraints_def mergedField_def callerProperty_def
          orEmptyObject_def)
  show ?thesis
    using n
      steps_fixed_order
        [OF n, of exampleHost "newALNKernel None JUndefined" "''2026-01-01T00:00:00.000Z''"
           JUndefined JUndefined JUndefined]
      steps_fixed_order
        [OF n, of exampleHost "newALNKernel None JUndefined" "''2026-01-01T00:00:00.000Z''"
           JUndefined "JObj [(''providerPolicies'', JArr [JStr ''no-pii''])]"
           "JObj [(''ci'', JStr ''github'')]"]
    by (simp add: a b stepOrder_def)
qed

end
